theory Spec2Isabelle
  imports Complex_Main "HOL-Library.AList"
begin

section \<open>Monthly aggregation of daily fund records (aggregatemonthly.js)\<close>

text \<open>
  A shallow embedding of \<^verbatim>\<open>src/aggregatemonthly.js\<close>.

  Conventions of the embedding.
  \<^item> A JavaScript number is \<open>Num r\<close> with \<open>r\<close> an exact real, or \<open>NaN\<close>. The rounding
    error, the overflow and the infinities of IEEE doubles are not modelled, so a value
    computed here can differ from the code's where a double lies next to a rounding
    boundary.
  \<^item> A string is a list of bytes; \<open>toUpperCase\<close> acts on the ASCII letters.
  \<^item> A \<open>Map\<close> is an association list in insertion order with distinct keys.
  \<^item> A thrown exception is a value: \<open>Inl TypeError\<close> of a sum, or \<open>Some TypeError\<close>
    beside the state that had been reached when it was thrown, because the objects
    the code mutates keep what was written before the throw.
  \<^item> The daily records come from \<open>JSON.parse\<close>. A property the code dereferences
    and that may be absent (or hold a value of another type) is an \<open>option\<close>. A rate of
    a fund or of the day's statistics is a number or is absent (\<open>undefined\<close>, here
    \<open>None\<close> of \<open>real option\<close>); other JSON values in the place of a rate are not
    modelled.
\<close>

subsection \<open>Host language: numbers, rounding, sorting, strings\<close>

datatype number = Num real | NaN

text \<open>The number that an arithmetic operator reads from a value that may be \<open>undefined\<close>.\<close>

definition numberOf :: "real option \<Rightarrow> number" where
  "numberOf v = (case v of None \<Rightarrow> NaN | Some r \<Rightarrow> Num r)"

fun js_plus :: "number \<Rightarrow> number \<Rightarrow> number" where
  "js_plus (Num a) (Num b) = Num (a + b)"
| "js_plus a b = NaN"

fun js_minus :: "number \<Rightarrow> number \<Rightarrow> number" where
  "js_minus (Num a) (Num b) = Num (a - b)"
| "js_minus a b = NaN"

text \<open>Division by the length of a non-empty array or by 2.\<close>

fun js_divide :: "number \<Rightarrow> real \<Rightarrow> number" where
  "js_divide (Num a) d = Num (a / d)"
| "js_divide NaN d = NaN"

text \<open>\<open>Math.pow(x, 2)\<close> and \<open>Math.sqrt(x)\<close>.\<close>

fun js_pow2 :: "number \<Rightarrow> number" where
  "js_pow2 (Num a) = Num (a ^ 2)"
| "js_pow2 NaN = NaN"

fun js_sqrt :: "number \<Rightarrow> number" where
  "js_sqrt (Num a) = (if a < 0 then NaN else Num (sqrt a))"
| "js_sqrt NaN = NaN"

text \<open>
  \<^verbatim>\<open>+(x).toFixed(2)\<close>: \<open>Number.prototype.toFixed\<close> prints a number of magnitude
  \<open>10^21\<close> or more in full, and otherwise picks the integer \<open>n\<close> with \<open>n / 100\<close> nearest
  to the magnitude, the larger \<open>n\<close> of two; the unary plus reads the string back. It
  prints \<open>NaN\<close> as \<open>NaN\<close>.
\<close>

definition round2 :: "real \<Rightarrow> real" where
  "round2 x =
     (if \<bar>x\<bar> \<ge> 10 ^ 21 then x
      else if x < 0 then - (of_int \<lfloor>(- x) * 100 + 1 / 2\<rfloor> / 100)
      else of_int \<lfloor>x * 100 + 1 / 2\<rfloor> / 100)"

fun toFixed2 :: "number \<Rightarrow> number" where
  "toFixed2 (Num x) = Num (round2 x)"
| "toFixed2 NaN = NaN"

text \<open>
  \<open>Array.prototype.sort\<close> with a comparator. The language requires a stable sort; for a
  consistent comparator its result is the one computed here, by stable insertion
  (an element goes behind exactly those it compares greater than). For an inconsistent
  comparator the language leaves the order to the implementation, and this is one such
  order.
\<close>

fun insert_sorted :: "('a \<Rightarrow> 'a \<Rightarrow> real) \<Rightarrow> 'a \<Rightarrow> 'a list \<Rightarrow> 'a list" where
  "insert_sorted cmp x [] = [x]"
| "insert_sorted cmp x (y # ys) =
     (if cmp x y > 0 then y # insert_sorted cmp x ys else x # y # ys)"

definition js_sort :: "('a \<Rightarrow> 'a \<Rightarrow> real) \<Rightarrow> 'a list \<Rightarrow> 'a list" where
  "js_sort cmp xs = foldr (insert_sorted cmp) xs []"

text \<open>A comparator result that is \<open>NaN\<close> counts as \<open>+0\<close> in the sort.\<close>

definition SortCompare :: "number \<Rightarrow> real" where
  "SortCompare v = (case v of NaN \<Rightarrow> 0 | Num r \<Rightarrow> r)"

text \<open>
  The sort of an array that may hold \<open>undefined\<close>: these elements go behind the others
  and are never passed to the comparator.
\<close>

definition js_sort_undefined ::
  "('a \<Rightarrow> 'a \<Rightarrow> real) \<Rightarrow> 'a option list \<Rightarrow> 'a option list" where
  "js_sort_undefined cmp xs =
     map Some (js_sort cmp (List.map_filter id xs)) @ filter (\<lambda>x. x = None) xs"

text \<open>\<open>xs[i]\<close>: \<open>undefined\<close> (here \<open>None\<close>) outside the array.\<close>

definition js_index :: "'a list \<Rightarrow> int \<Rightarrow> 'a option" where
  "js_index xs i = (if 0 \<le> i \<and> i < int (length xs) then Some (xs ! nat i) else None)"

text \<open>\<open>s.split(sep)\<close> for a one-character separator.\<close>

fun js_split :: "char \<Rightarrow> string \<Rightarrow> string list" where
  "js_split sep [] = [[]]"
| "js_split sep (c # cs) =
     (if c = sep then [] # js_split sep cs
      else (case js_split sep cs of
              [] \<Rightarrow> [[c]]
            | w # ws \<Rightarrow> (c # w) # ws))"

definition toUpperChar :: "char \<Rightarrow> char" where
  "toUpperChar c =
     (case map_of (zip ''abcdefghijklmnopqrstuvwxyz'' ''ABCDEFGHIJKLMNOPQRSTUVWXYZ'') c of
        None \<Rightarrow> c
      | Some u \<Rightarrow> u)"

definition toUpperCase :: "string \<Rightarrow> string" where
  "toUpperCase s = map toUpperChar s"

text \<open>A template literal prints \<open>undefined\<close> for an absent value.\<close>

definition template :: "string option \<Rightarrow> string" where
  "template v = (case v of None \<Rightarrow> ''undefined'' | Some s \<Rightarrow> s)"

text \<open>
  \<open>ToNumber\<close>, which the subtraction of two year tokens applies to each of them.
  \<open>undefined\<close> is \<open>NaN\<close>, the empty string is \<open>0\<close>, and a string of decimal digits is its
  value (exact in the code as well below \<open>2^53\<close>). Every other string is \<open>NaN\<close> here:
  signs, fractions, exponents, radix prefixes and white space, which the code reads as
  numbers, are not modelled. The properties below evaluate it on short strings of
  digits only.
\<close>

definition digitValue :: "char \<Rightarrow> nat option" where
  "digitValue c = map_of (zip ''0123456789'' [0, 1, 2, 3, 4, 5, 6, 7, 8, 9]) c"

definition decimalValue :: "string \<Rightarrow> nat" where
  "decimalValue s = foldl (\<lambda>n c. 10 * n + the (digitValue c)) 0 s"

definition ToNumber :: "string option \<Rightarrow> number" where
  "ToNumber v =
     (case v of
        None \<Rightarrow> NaN
      | Some s \<Rightarrow>
          if s = [] then Num 0
          else if list_all (\<lambda>c. digitValue c \<noteq> None) s then Num (real (decimalValue s))
          else NaN)"

text \<open>\<open>arr.indexOf(v)\<close>: the first position of \<open>v\<close>, or \<open>-1\<close>.\<close>

fun indexOf :: "'a list \<Rightarrow> 'a \<Rightarrow> int" where
  "indexOf [] v = -1"
| "indexOf (x # xs) v =
     (if x = v then 0 else (let i = indexOf xs v in if i < 0 then -1 else i + 1))"

text \<open>
  \<open>arr.map(f)\<close> for a callback that may throw: the first exception leaves the loop.
\<close>

fun js_map :: "('a \<Rightarrow> 'e + 'b) \<Rightarrow> 'a list \<Rightarrow> 'e + 'b list" where
  "js_map f [] = Inr []"
| "js_map f (x # xs) =
     (case f x of
        Inl e \<Rightarrow> Inl e
      | Inr y \<Rightarrow> (case js_map f xs of Inl e \<Rightarrow> Inl e | Inr ys \<Rightarrow> Inr (y # ys)))"

datatype js_error = TypeError

subsection \<open>The statistics object\<close>

text \<open>
  The elements of an array are numbers or \<open>undefined\<close>. \<open>median\<close> calls \<open>toFixed\<close> on an
  element of the array, which throws when the element is \<open>undefined\<close>; everywhere else
  \<open>toFixed\<close> is called on the result of a division or of \<open>Math.sqrt\<close>, which is a number.
\<close>

definition average :: "real option list \<Rightarrow> number" where
  "average arr =
     (if length arr = 0 then Num 0
      else (let sum = foldl (\<lambda>a b. js_plus a (numberOf b)) (Num 0) arr
            in toFixed2 (js_divide sum (real (length arr)))))"

definition median :: "real option list \<Rightarrow> js_error + number" where
  "median arr =
     (if length arr = 0 then Inr (Num 0)
      else (let sorted = js_sort_undefined (\<lambda>a b. a - b) arr;
                mid = length sorted div 2
            in if length sorted mod 2 = 0
               then Inr (toFixed2
                      (js_divide
                         (js_plus (numberOf (sorted ! (mid - 1))) (numberOf (sorted ! mid))) 2))
               else (case sorted ! mid of
                       None \<Rightarrow> Inl TypeError
                     | Some x \<Rightarrow> Inr (toFixed2 (Num x)))))"

definition stdDev :: "real option list \<Rightarrow> number" where
  "stdDev arr =
     (if length arr = 0 then Num 0
      else (let mean = average arr;
                variance =
                  js_divide
                    (foldl (\<lambda>acc val. js_plus acc (js_pow2 (js_minus (numberOf val) mean)))
                       (Num 0) arr)
                    (real (length arr))
            in toFixed2 (js_sqrt variance)))"

subsection \<open>Data\<close>

text \<open>The three rates, as values or as detailed statistics, with or without a count.\<close>

record 'a Triple =
  nominalRate :: 'a
  afterTaxReturn :: 'a
  realReturn :: 'a

record 'a Stats = "'a Triple" +
  dataPoints :: nat

record Detail =
  d_average :: number
  d_median :: number
  d_stdDev :: number

text \<open>
  An element of \<open>dayData.funds\<close> that is not \<open>null\<close>; \<open>fund_name\<close> is its property
  \<open>name\<close>, modelled as a string.
\<close>

record Fund = "real option Triple" +
  fund_name :: string

text \<open>
  The value of \<open>dayData.metadata.date\<close>: a string, or anything else (absent, \<open>null\<close>, a
  number, an array, an object), which has no \<open>split\<close> method. Of a value that is not a
  string the model keeps whether a template literal can print it; an object such as
  \<^verbatim>\<open>{"toString": 1}\<close> cannot be converted to a string, and printing it throws.
\<close>

datatype date_value = DateString string | NotString bool

text \<open>
  \<open>dayData.metadata\<close>, when reading its \<open>date\<close> does not throw. \<open>day_statistics\<close> is
  \<open>metadata.statistics.average\<close>, \<open>None\<close> when reading a rate of it throws: \<open>statistics\<close>
  or its \<open>average\<close> is absent or \<open>null\<close>.
\<close>

record Metadata =
  date :: date_value
  day_statistics :: "real option Triple option"

text \<open>
  A daily record. \<open>metadata\<close> is \<open>None\<close> when reading \<open>dayData.metadata.date\<close> throws:
  the record or its \<open>metadata\<close> is \<open>null\<close> or absent. \<open>day_funds\<close> is \<open>None\<close> when
  \<open>funds\<close> is absent or is not an array, and an element of the array is \<open>None\<close> when
  it is \<open>null\<close>.
\<close>

record DayData =
  metadata :: "Metadata option"
  day_funds :: "Fund option list option"

record FundMetrics =
  nominalRates :: "real option list"
  afterTaxReturns :: "real option list"
  realReturns :: "real option list"
  count :: nat

record MonthData =
  fundsData :: "(string \<times> FundMetrics) list"
  statistics :: FundMetrics

text \<open>\<open>{name, ...metrics.getAverages()}\<close>, and the same with its \<open>rank\<close>.\<close>

record NamedAverages = "number Stats" +
  name :: string

record FundSummary = NamedAverages +
  rank :: nat

text \<open>
  One element of the result. The nested objects \<open>metadata\<close>, \<open>metadata.statistics\<close> and
  \<open>metadata.summary\<close> are flattened. \<open>topPerformer\<close> and \<open>bottomPerformer\<close> are copies
  made by an object spread: the spread of \<open>undefined\<close> is the empty object, \<open>None\<close> here.
\<close>

record MonthSummary =
  month :: string
  source :: string
  statistics_average :: "number Stats"
  statistics_detailed :: "Detail Stats"
  totalFunds :: nat
  topPerformer :: "FundSummary option"
  bottomPerformer :: "FundSummary option"
  funds :: "FundSummary list"

subsection \<open>class FundMetrics\<close>

definition new_FundMetrics :: FundMetrics where
  "new_FundMetrics = \<lparr>nominalRates = [], afterTaxReturns = [], realReturns = [], count = 0\<rparr>"

definition addMetrics ::
  "FundMetrics \<Rightarrow> real option \<Rightarrow> real option \<Rightarrow> real option \<Rightarrow> FundMetrics" where
  "addMetrics this nominal afterTax real' =
     \<lparr>nominalRates = nominalRates this @ [nominal],
      afterTaxReturns = afterTaxReturns this @ [afterTax],
      realReturns = realReturns this @ [real'],
      count = count this + 1\<rparr>"

definition getAverages :: "FundMetrics \<Rightarrow> number Stats" where
  "getAverages this =
     \<lparr>nominalRate = average (nominalRates this),
      afterTaxReturn = average (afterTaxReturns this),
      realReturn = average (realReturns this),
      dataPoints = count this\<rparr>"

text \<open>One of the three inner objects of \<open>getDetailedStats\<close>.\<close>

definition detail :: "real option list \<Rightarrow> js_error + Detail" where
  "detail arr =
     (case median arr of
        Inl e \<Rightarrow> Inl e
      | Inr m \<Rightarrow> Inr \<lparr>d_average = average arr, d_median = m, d_stdDev = stdDev arr\<rparr>)"

definition getDetailedStats :: "FundMetrics \<Rightarrow> js_error + Detail Stats" where
  "getDetailedStats this =
     (case detail (nominalRates this) of
        Inl e \<Rightarrow> Inl e
      | Inr n \<Rightarrow>
          (case detail (afterTaxReturns this) of
             Inl e \<Rightarrow> Inl e
           | Inr a \<Rightarrow>
               (case detail (realReturns this) of
                  Inl e \<Rightarrow> Inl e
                | Inr r \<Rightarrow>
                    Inr \<lparr>nominalRate = n, afterTaxReturn = a, realReturn = r,
                         dataPoints = count this\<rparr>)))"

subsection \<open>class MonthData\<close>

definition new_MonthData :: MonthData where
  "new_MonthData = \<lparr>fundsData = [], statistics = new_FundMetrics\<rparr>"

definition Map_has :: "('k \<times> 'v) list \<Rightarrow> 'k \<Rightarrow> bool" where
  "Map_has m k = (map_of m k \<noteq> None)"

definition addFundData :: "MonthData \<Rightarrow> Fund \<Rightarrow> MonthData" where
  "addFundData this fund =
     (let fundsData1 =
            (if \<not> Map_has (fundsData this) (fund_name fund)
             then AList.update (fund_name fund) new_FundMetrics (fundsData this)
             else fundsData this)
      in this\<lparr>fundsData :=
           AList.map_entry (fund_name fund)
             (\<lambda>fundMetrics.
                addMetrics fundMetrics (nominalRate fund) (afterTaxReturn fund) (realReturn fund))
             fundsData1\<rparr>)"

definition addStatistics :: "MonthData \<Rightarrow> real option Triple \<Rightarrow> MonthData" where
  "addStatistics this stats_average =
     this\<lparr>statistics :=
       addMetrics (statistics this) (nominalRate stats_average)
         (afterTaxReturn stats_average) (realReturn stats_average)\<rparr>"

subsection \<open>processMonthlyData\<close>

text \<open>Lines 105 and 106: the key of the month bucket of a date string.\<close>

definition monthYearOf :: "string \<Rightarrow> string" where
  "monthYearOf dateStr =
     (let parts = js_split CHR '' '' dateStr;
          month = js_index parts 1;
          year = js_index parts 2
      in toUpperCase (template month @ '' '' @ template year))"

text \<open>
  \<open>dayData.funds.forEach(fund => monthData.addFundData(fund))\<close>: a \<open>null\<close> fund throws
  at \<open>fund.name\<close>, after the funds before it have been added.
\<close>

fun addFunds :: "MonthData \<Rightarrow> Fund option list \<Rightarrow> MonthData \<times> js_error option" where
  "addFunds monthData [] = (monthData, None)"
| "addFunds monthData (None # fs) = (monthData, Some TypeError)"
| "addFunds monthData (Some fund # fs) = addFunds (addFundData monthData fund) fs"

text \<open>Lines 113 to 117, on the bucket that \<open>monthsMap.get\<close> returned.\<close>

definition addDay :: "DayData \<Rightarrow> Metadata \<Rightarrow> MonthData \<Rightarrow> MonthData \<times> js_error option" where
  "addDay dayData md monthData =
     (case day_funds dayData of
        None \<Rightarrow> (monthData, Some TypeError)
      | Some fs \<Rightarrow>
          (case addFunds monthData fs of
             (monthData1, Some e) \<Rightarrow> (monthData1, Some e)
           | (monthData1, None) \<Rightarrow>
               (case day_statistics md of
                  None \<Rightarrow> (monthData1, Some TypeError)
                | Some stats_average \<Rightarrow> (addStatistics monthData1 stats_average, None))))"

text \<open>
  The body of the \<open>try\<close> block: the map as it stands when the block ends, and the
  exception if it ended by one.
\<close>

definition tryBlock ::
  "(string \<times> MonthData) list \<Rightarrow> DayData \<Rightarrow> (string \<times> MonthData) list \<times> js_error option" where
  "tryBlock monthsMap dayData =
     (case metadata dayData of
        None \<Rightarrow> (monthsMap, Some TypeError)
      | Some md \<Rightarrow>
          (case date md of
             NotString printable \<Rightarrow> (monthsMap, Some TypeError)
           | DateString dateStr \<Rightarrow>
               (let monthYear = monthYearOf dateStr;
                    monthsMap1 =
                      (if \<not> Map_has monthsMap monthYear
                       then AList.update monthYear new_MonthData monthsMap
                       else monthsMap)
                in (case map_of monthsMap1 monthYear of
                      None \<Rightarrow> (monthsMap1, Some TypeError)
                    | Some monthData \<Rightarrow>
                        (case addDay dayData md monthData of
                           (monthData1, e) \<Rightarrow>
                             (AList.update monthYear monthData1 monthsMap1, e))))))"

text \<open>
  The \<open>catch\<close> block prints \<open>dayData.metadata.date\<close> in a template literal (line 119):
  it throws in its turn when reading the date throws or when the date cannot be
  converted to a string.
\<close>

definition catchBlock :: "DayData \<Rightarrow> js_error option" where
  "catchBlock dayData =
     (case metadata dayData of
        None \<Rightarrow> Some TypeError
      | Some md \<Rightarrow>
          (case date md of
             DateString dateStr \<Rightarrow> None
           | NotString printable \<Rightarrow> if printable then None else Some TypeError))"

text \<open>
  The callback of \<open>dailyData.forEach\<close>. An exception of the \<open>catch\<close> block leaves
  \<open>processMonthlyData\<close>.
\<close>

definition processDay ::
  "(string \<times> MonthData) list \<Rightarrow> DayData \<Rightarrow> js_error + (string \<times> MonthData) list" where
  "processDay monthsMap dayData =
     (case tryBlock monthsMap dayData of
        (monthsMap1, None) \<Rightarrow> Inr monthsMap1
      | (monthsMap1, Some error) \<Rightarrow>
          (case catchBlock dayData of
             Some e \<Rightarrow> Inl e
           | None \<Rightarrow> Inr monthsMap1))"

fun forEachDay ::
  "(string \<times> MonthData) list \<Rightarrow> DayData list \<Rightarrow> js_error + (string \<times> MonthData) list" where
  "forEachDay monthsMap [] = Inr monthsMap"
| "forEachDay monthsMap (dayData # rest) =
     (case processDay monthsMap dayData of
        Inl e \<Rightarrow> Inl e
      | Inr monthsMap1 \<Rightarrow> forEachDay monthsMap1 rest)"

text \<open>Lines 126 to 135: the funds of a month, sorted and ranked.\<close>

definition namedAverages :: "string \<times> FundMetrics \<Rightarrow> NamedAverages" where
  "namedAverages entry =
     (case entry of
        (name', metrics) \<Rightarrow>
          \<lparr>nominalRate = nominalRate (getAverages metrics),
           afterTaxReturn = afterTaxReturn (getAverages metrics),
           realReturn = realReturn (getAverages metrics),
           dataPoints = dataPoints (getAverages metrics),
           name = name'\<rparr>)"

definition withRank :: "nat \<times> NamedAverages \<Rightarrow> FundSummary" where
  "withRank p =
     (case p of
        (index, fund) \<Rightarrow>
          \<lparr>nominalRate = nominalRate fund,
           afterTaxReturn = afterTaxReturn fund,
           realReturn = realReturn fund,
           dataPoints = dataPoints fund,
           name = name fund,
           rank = index + 1\<rparr>)"

definition compareFunds :: "NamedAverages \<Rightarrow> NamedAverages \<Rightarrow> number" where
  "compareFunds a b = js_minus (nominalRate b) (nominalRate a)"

definition rankedFunds :: "MonthData \<Rightarrow> FundSummary list" where
  "rankedFunds data =
     map withRank
       (enumerate 0
          (js_sort (\<lambda>a b. SortCompare (compareFunds a b))
             (map namedAverages (fundsData data))))"

text \<open>
  Lines 124 to 153: the callback that turns a bucket into an element of the result.
  \<open>getDetailedStats\<close> is the one call in it that can throw; \<open>summaryObject\<close> is the object
  it returns otherwise.
\<close>

definition summaryObject :: "string \<Rightarrow> MonthData \<Rightarrow> Detail Stats \<Rightarrow> MonthSummary" where
  "summaryObject monthYear data detailed =
     (let funds = rankedFunds data
      in \<lparr>month = monthYear,
          source = ''Daily Nation and M-PESA APP'',
          statistics_average = getAverages (statistics data),
          statistics_detailed = detailed,
          totalFunds = length funds,
          topPerformer = js_index funds 0,
          bottomPerformer = js_index funds (int (length funds) - 1),
          funds = funds\<rparr>)"

definition monthSummary :: "string \<times> MonthData \<Rightarrow> js_error + MonthSummary" where
  "monthSummary entry =
     (case entry of
        (monthYear, data) \<Rightarrow>
          (case getDetailedStats (statistics data) of
             Inl e \<Rightarrow> Inl e
           | Inr detailed \<Rightarrow> Inr (summaryObject monthYear data detailed)))"

text \<open>Lines 156 to 164: the comparator of the months.\<close>

definition months :: "string list" where
  "months = [''JANUARY'', ''FEBRUARY'', ''MARCH'', ''APRIL'', ''MAY'', ''JUNE'',
             ''JULY'', ''AUGUST'', ''SEPTEMBER'', ''OCTOBER'', ''NOVEMBER'', ''DECEMBER'']"

definition monthToken :: "string \<Rightarrow> string option" where
  "monthToken monthYear = js_index (js_split CHR '' '' monthYear) 0"

definition yearToken :: "string \<Rightarrow> string option" where
  "yearToken monthYear = js_index (js_split CHR '' '' monthYear) 1"

definition monthIndex :: "string option \<Rightarrow> int" where
  "monthIndex aMonth = (case aMonth of None \<Rightarrow> -1 | Some s \<Rightarrow> indexOf months s)"

definition compareMonths :: "MonthSummary \<Rightarrow> MonthSummary \<Rightarrow> number" where
  "compareMonths a b =
     (let aMonth = monthToken (month a); aYear = yearToken (month a);
          bMonth = monthToken (month b); bYear = yearToken (month b)
      in if aYear \<noteq> bYear then js_minus (ToNumber aYear) (ToNumber bYear)
         else Num (real_of_int (monthIndex aMonth - monthIndex bMonth)))"

definition processMonthlyData :: "DayData list \<Rightarrow> js_error + MonthSummary list" where
  "processMonthlyData dailyData =
     (case forEachDay [] dailyData of
        Inl e \<Rightarrow> Inl e
      | Inr monthsMap \<Rightarrow>
          (case js_map monthSummary monthsMap of
             Inl e \<Rightarrow> Inl e
           | Inr monthlyData \<Rightarrow>
               Inr (js_sort (\<lambda>a b. SortCompare (compareMonths a b)) monthlyData)))"

subsection \<open>main\<close>

record OverallSummary =
  totalMonths :: nat
  dateRange_start :: string
  dateRange_end :: string
  averageNumberOfFunds :: real

text \<open>
  Lines 178 to 189. \<open>monthlyData[0].metadata\<close> throws on an empty array, before the
  average is taken.
\<close>

definition summaryData :: "MonthSummary list \<Rightarrow> js_error + OverallSummary" where
  "summaryData monthlyData =
     (case js_index monthlyData 0 of
        None \<Rightarrow> Inl TypeError
      | Some first_month \<Rightarrow>
          (case js_index monthlyData (int (length monthlyData) - 1) of
             None \<Rightarrow> Inl TypeError
           | Some last_month \<Rightarrow>
               Inr \<lparr>totalMonths = length monthlyData,
                    dateRange_start = month first_month,
                    dateRange_end = month last_month,
                    averageNumberOfFunds =
                      round2 (foldl (\<lambda>sum m. sum + real (totalFunds m)) 0 monthlyData
                              / real (length monthlyData))\<rparr>))"

text \<open>
  \<open>main\<close>, from the parsed array on: what is written to \<open>monthly.json\<close> and the exit
  status. Its \<open>catch\<close> block logs the exception and exits with status 1.
\<close>

definition main :: "DayData list \<Rightarrow> (OverallSummary \<times> MonthSummary list) option \<times> nat" where
  "main dailyData =
     (case processMonthlyData dailyData of
        Inl error \<Rightarrow> (None, 1)
      | Inr monthlyData \<Rightarrow>
          (case summaryData monthlyData of
             Inl error \<Rightarrow> (None, 1)
           | Inr summary \<Rightarrow> (Some (summary, monthlyData), 0)))"

subsection \<open>Notions used to state the properties\<close>

text \<open>The comparisons \<open>\<le>\<close> and \<open><\<close> of two numbers: false when one of them is \<open>NaN\<close>.\<close>

fun js_le :: "number \<Rightarrow> number \<Rightarrow> bool" where
  "js_le (Num a) (Num b) = (a \<le> b)"
| "js_le a b = False"

fun js_less :: "number \<Rightarrow> number \<Rightarrow> bool" where
  "js_less (Num a) (Num b) = (a < b)"
| "js_less a b = False"

text \<open>
  A list of numbers in descending order; a list that holds \<open>NaN\<close> beside another
  number is not.
\<close>

definition descending :: "number list \<Rightarrow> bool" where
  "descending vs = sorted_wrt (\<lambda>a b. js_le b a) vs"

text \<open>
  What a run returns, seen through a function of its elements: the months of the
  result, the names of their funds, and so on.
\<close>

definition runView :: "(MonthSummary \<Rightarrow> 'a) \<Rightarrow> DayData list \<Rightarrow> js_error + 'a list" where
  "runView f dailyData =
     (case processMonthlyData dailyData of Inl e \<Rightarrow> Inl e | Inr out \<Rightarrow> Inr (map f out))"

text \<open>The date string of a record, when reading \<open>dayData.metadata.date\<close> gives one.\<close>

definition dayDate :: "DayData \<Rightarrow> string option" where
  "dayDate dayData =
     (case metadata dayData of
        None \<Rightarrow> None
      | Some md \<Rightarrow> (case date md of DateString dateStr \<Rightarrow> Some dateStr | NotString p \<Rightarrow> None))"

text \<open>The key of the bucket that a record creates or finds, when it gets that far.\<close>

definition dayKey :: "DayData \<Rightarrow> string option" where
  "dayKey dayData = map_option monthYearOf (dayDate dayData)"

text \<open>
  What a record whose \<open>try\<close> block runs to its end appends to the statistics of a
  bucket: the key of the bucket and the day's triple. \<open>None\<close> for a record whose \<open>try\<close>
  block throws.
\<close>

definition contribution :: "DayData \<Rightarrow> (string \<times> real option Triple) option" where
  "contribution dayData =
     (case tryBlock [] dayData of
        (monthsMap, Some e) \<Rightarrow> None
      | (monthsMap, None) \<Rightarrow>
          (case metadata dayData of
             None \<Rightarrow> None
           | Some md \<Rightarrow>
               (case date md of
                  NotString p \<Rightarrow> None
                | DateString dateStr \<Rightarrow>
                    (case day_statistics md of
                       None \<Rightarrow> None
                     | Some stats_average \<Rightarrow> Some (monthYearOf dateStr, stats_average)))))"

text \<open>The day triples appended to the bucket \<open>k\<close>, in the order of the records.\<close>

definition dayStats :: "string \<Rightarrow> DayData list \<Rightarrow> real option Triple list" where
  "dayStats k dailyData =
     map snd (filter (\<lambda>p. fst p = k) (List.map_filter contribution dailyData))"

text \<open>
  Whether the statements of lines 113 to 117 throw: \<open>funds\<close> is absent, one of the funds
  is \<open>null\<close>, or the day's statistics are absent.
\<close>

definition dayThrows :: "DayData \<Rightarrow> Metadata \<Rightarrow> bool" where
  "dayThrows dayData md =
     (case day_funds dayData of
        None \<Rightarrow> True
      | Some fs \<Rightarrow> None \<in> set fs \<or> day_statistics md = None)"

text \<open>The funds of a record that reach \<open>addFundData\<close>: those before the first \<open>null\<close>.\<close>

definition addedFunds :: "DayData \<Rightarrow> Fund list" where
  "addedFunds dayData =
     (case day_funds dayData of
        None \<Rightarrow> []
      | Some fs \<Rightarrow> List.map_filter id (takeWhile (\<lambda>f. f \<noteq> None) fs))"

text \<open>The funds added to the bucket \<open>k\<close>, in the order of the records.\<close>

definition monthFunds :: "string \<Rightarrow> DayData list \<Rightarrow> Fund list" where
  "monthFunds k dailyData =
     concat (map addedFunds
       (filter (\<lambda>d. dayKey d = Some k) dailyData))"


text \<open>The elements of a list in the order of their first occurrences.\<close>

definition firstAppearance :: "'a list \<Rightarrow> 'a list" where
  "firstAppearance xs = rev (remdups (rev xs))"

text \<open>The accumulator that the samples of a list of funds build, and that of day triples.\<close>

definition addFund :: "FundMetrics \<Rightarrow> Fund \<Rightarrow> FundMetrics" where
  "addFund fm fund = addMetrics fm (nominalRate fund) (afterTaxReturn fund) (realReturn fund)"

definition addStat :: "FundMetrics \<Rightarrow> real option Triple \<Rightarrow> FundMetrics" where
  "addStat fm st = addMetrics fm (nominalRate st) (afterTaxReturn st) (realReturn st)"

definition samplesOf :: "string \<Rightarrow> Fund list \<Rightarrow> Fund list" where
  "samplesOf n fs = filter (\<lambda>f. fund_name f = n) fs"

text \<open>The bucket of the key \<open>k\<close>; a fresh one when the map has none.\<close>

definition dataOf :: "(string \<times> MonthData) list \<Rightarrow> string \<Rightarrow> MonthData" where
  "dataOf monthsMap k =
     (case map_of monthsMap k of None \<Rightarrow> new_MonthData | Some data \<Rightarrow> data)"

text \<open>
  The value of a number that is not \<open>NaN\<close>, and the funds of a bucket sorted by the
  library's stable insertion sort on the negated value of the rate; the sort of the
  source is shown to compute it when no rate is \<open>NaN\<close>.
\<close>

definition numberValue :: "number \<Rightarrow> real" where
  "numberValue v = (case v of NaN \<Rightarrow> 0 | Num r \<Rightarrow> r)"

definition sortedFunds :: "MonthData \<Rightarrow> NamedAverages list" where
  "sortedFunds data =
     sort_key (\<lambda>f. - numberValue (nominalRate f)) (map namedAverages (fundsData data))"

text \<open>
  The \<open>fundsData\<close> that a list of funds builds from an empty map: the names in the
  order of their first appearance, each with the accumulator of its samples.
\<close>

definition fundsTable :: "Fund list \<Rightarrow> (string \<times> FundMetrics) list" where
  "fundsTable fs = map (\<lambda>n. (n, foldl addFund new_FundMetrics (samplesOf n fs)))
              (firstAppearance (map fund_name fs))"

text \<open>
  The month and the year of a date string as the template literal of line 106 prints
  them: the second and the third token, \<open>undefined\<close> for a token that is not there.
\<close>

definition monthOfDate :: "string \<Rightarrow> string" where
  "monthOfDate dateStr = template (js_index (js_split CHR '' '' dateStr) 1)"

definition yearOfDate :: "string \<Rightarrow> string" where
  "yearOfDate dateStr = template (js_index (js_split CHR '' '' dateStr) 2)"

text \<open>
  The month key as the specification words it: the uppercased month token paired with
  the year token.
\<close>

definition spec_MonthKey :: "string \<Rightarrow> string \<times> string" where
  "spec_MonthKey dateStr = (toUpperCase (monthOfDate dateStr), yearOfDate dateStr)"




text \<open>A triple of rates that are all numbers.\<close>

definition numeric :: "real option Triple \<Rightarrow> bool" where
  "numeric st = (nominalRate st \<noteq> None \<and> afterTaxReturn st \<noteq> None \<and> realReturn st \<noteq> None)"

text \<open>
  The standard deviation as the specification words it: the exact mean, the population
  variance about it, and one rounding, of the square root.
\<close>

definition mean :: "real list \<Rightarrow> real" where
  "mean xs = sum_list xs / real (length xs)"



text \<open>
  Well-formed values for the examples: a fund and a day's triple with three equal
  rates, and a daily record with a date string, funds and statistics.
\<close>

definition rates :: "real \<Rightarrow> real option Triple" where
  "rates r = \<lparr>nominalRate = Some r, afterTaxReturn = Some r, realReturn = Some r\<rparr>"

definition fundOf :: "string \<Rightarrow> real \<Rightarrow> Fund" where
  "fundOf n r =
     \<lparr>nominalRate = Some r, afterTaxReturn = Some r, realReturn = Some r, fund_name = n\<rparr>"

text \<open>A fund whose sample has no \<open>nominalRate\<close>.\<close>

definition fundWithoutRate :: "string \<Rightarrow> Fund" where
  "fundWithoutRate n =
     \<lparr>nominalRate = None, afterTaxReturn = Some 3, realReturn = Some 3, fund_name = n\<rparr>"

definition dayOf :: "string \<Rightarrow> Fund list \<Rightarrow> real \<Rightarrow> DayData" where
  "dayOf dateStr fs r =
     \<lparr>metadata = Some \<lparr>date = DateString dateStr, day_statistics = Some (rates r)\<rparr>,
      day_funds = Some (map Some fs)\<rparr>"

section \<open>Lemmas\<close>

subsection \<open>Sorting and ranking\<close>

lemma set_insert_sorted: "set (insert_sorted cmp x ys) = insert x (set ys)"
  by (induction ys) auto

lemma length_insert_sorted: "length (insert_sorted cmp x ys) = Suc (length ys)"
  by (induction ys) auto

lemma js_sort_Nil: "js_sort cmp [] = []"
  by (simp add: js_sort_def)

lemma js_sort_Cons: "js_sort cmp (x # xs) = insert_sorted cmp x (js_sort cmp xs)"
  by (simp add: js_sort_def)

lemma set_js_sort: "set (js_sort cmp xs) = set xs"
  by (induction xs) (simp_all add: js_sort_Nil js_sort_Cons set_insert_sorted)

lemma length_js_sort: "length (js_sort cmp xs) = length xs"
  by (induction xs) (simp_all add: js_sort_Nil js_sort_Cons length_insert_sorted)

lemma insert_sorted_insort_key:
  fixes key :: "'a \<Rightarrow> 'k::linorder"
  assumes "\<forall>y\<in>set ys. (cmp x y > 0) = (key x > key y)"
  shows "insert_sorted cmp x ys = insort_key key x ys"
  using assms by (induction ys) auto

lemma js_sort_sort_key:
  fixes key :: "'a \<Rightarrow> 'k::linorder"
  assumes "\<forall>x\<in>set xs. \<forall>y\<in>set xs. (cmp x y > 0) = (key x > key y)"
  shows "js_sort cmp xs = sort_key key xs"
  using assms
proof (induction xs)
  case Nil
  then show ?case by (simp add: js_sort_Nil)
next
  case (Cons x xs)
  have "js_sort cmp xs = sort_key key xs"
    using Cons by simp
  moreover have "insert_sorted cmp x (sort_key key xs) = insort_key key x (sort_key key xs)"
    by (rule insert_sorted_insort_key) (use Cons.prems in simp)
  ultimately show ?case
    by (simp add: js_sort_Cons)
qed

lemma compareFunds_numbers:
  assumes "nominalRate x \<noteq> NaN" and "nominalRate y \<noteq> NaN"
  shows "(SortCompare (compareFunds x y) > 0)
       = (- numberValue (nominalRate x) > - numberValue (nominalRate y))"
proof -
  obtain a b where "nominalRate x = Num a" "nominalRate y = Num b"
    using assms by (cases "nominalRate x"; cases "nominalRate y") auto
  then show ?thesis
    by (simp add: compareFunds_def SortCompare_def numberValue_def)
qed

lemma rankedFunds_sort_key:
  assumes "\<forall>g\<in>set (map namedAverages (fundsData data)). nominalRate g \<noteq> NaN"
  shows "rankedFunds data = map withRank (enumerate 0 (sortedFunds data))"
proof -
  have "js_sort (\<lambda>a b. SortCompare (compareFunds a b)) (map namedAverages (fundsData data))
        = sortedFunds data"
    unfolding sortedFunds_def
    by (rule js_sort_sort_key) (use assms compareFunds_numbers in blast)
  then show ?thesis by (simp add: rankedFunds_def)
qed

lemma length_rankedFunds: "length (rankedFunds data) = length (fundsData data)"
  by (simp add: rankedFunds_def length_js_sort)

lemma map_rank_enumerate: "map rank (map withRank (enumerate n ys)) = [Suc n..<Suc (n + length ys)]"
proof (induction ys arbitrary: n)
  case Nil
  then show ?case by simp
next
  case (Cons y ys)
  have "[Suc n..<Suc (n + length (y # ys))] = Suc n # [Suc (Suc n)..<Suc (Suc n + length ys)]"
    by (simp add: upt_conv_Cons del: upt_Suc)
  moreover have "map rank (map withRank (enumerate n (y # ys)))
      = Suc n # map rank (map withRank (enumerate (Suc n) ys))"
    by (simp add: withRank_def)
  ultimately show ?case
    using Cons [of "Suc n"] by (simp only:)
qed

lemma map_rank_rankedFunds:
  "map rank (rankedFunds data) = [1..<Suc (length (rankedFunds data))]"
proof -
  let ?ys = "js_sort (\<lambda>a b. SortCompare (compareFunds a b)) (map namedAverages (fundsData data))"
  have "length (rankedFunds data) = length ?ys"
    by (simp add: rankedFunds_def)
  then show ?thesis
    using map_rank_enumerate [of 0 ?ys] by (simp add: rankedFunds_def)
qed

lemma map_nominalRate_enumerate:
  "map nominalRate (map withRank (enumerate n ys)) = map nominalRate ys"
  by (induction ys arbitrary: n) (simp_all add: withRank_def)

lemma map_nominalRate_rankedFunds:
  "map nominalRate (rankedFunds data)
   = map nominalRate
       (js_sort (\<lambda>a b. SortCompare (compareFunds a b)) (map namedAverages (fundsData data)))"
  by (simp only: rankedFunds_def map_nominalRate_enumerate)

lemma rates_rankedFunds:
  "nominalRate ` set (rankedFunds data) = nominalRate ` set (map namedAverages (fundsData data))"
proof -
  have "set (map nominalRate (rankedFunds data))
      = set (map nominalRate
          (js_sort (\<lambda>a b. SortCompare (compareFunds a b)) (map namedAverages (fundsData data))))"
    by (simp only: map_nominalRate_rankedFunds)
  then show ?thesis
    by (simp only: set_map set_js_sort)
qed

lemma no_NaN_rankedFunds:
  assumes "\<forall>f\<in>set (rankedFunds data). nominalRate f \<noteq> NaN"
  shows "\<forall>g\<in>set (map namedAverages (fundsData data)). nominalRate g \<noteq> NaN"
proof
  fix g assume "g \<in> set (map namedAverages (fundsData data))"
  then have "nominalRate g \<in> nominalRate ` set (rankedFunds data)"
    unfolding rates_rankedFunds by (rule imageI)
  then show "nominalRate g \<noteq> NaN"
    using assms by auto
qed

lemma sorted_desc_rankedFunds:
  assumes "\<forall>f\<in>set (rankedFunds data). nominalRate f \<noteq> NaN"
  shows "sorted_wrt (\<lambda>a b. js_le (nominalRate b) (nominalRate a)) (rankedFunds data)"
proof -
  note nn = no_NaN_rankedFunds [OF assms]
  have le: "js_le b a = (- numberValue a \<le> - numberValue b)" if "a \<noteq> NaN" "b \<noteq> NaN" for a b
    using that by (cases a; cases b) (simp_all add: numberValue_def)
  have "sorted (map (\<lambda>f. - numberValue (nominalRate f)) (sortedFunds data))"
    unfolding sortedFunds_def by (rule sorted_sort_key)
  then have "sorted_wrt (\<lambda>a b. - numberValue a \<le> - numberValue b)
      (map nominalRate (sortedFunds data))"
    by (simp add: sorted_wrt_map sorted_map)
  moreover have "map nominalRate (rankedFunds data) = map nominalRate (sortedFunds data)"
    by (simp only: rankedFunds_sort_key [OF nn] map_nominalRate_enumerate)
  ultimately have "sorted_wrt (\<lambda>a b. - numberValue a \<le> - numberValue b)
      (map nominalRate (rankedFunds data))"
    by simp
  then have "sorted_wrt (\<lambda>a b. - numberValue (nominalRate a) \<le> - numberValue (nominalRate b))
      (rankedFunds data)"
    by (simp add: sorted_wrt_map)
  then show ?thesis
    by (rule sorted_wrt_mono_rel [rotated]) (use assms le in auto)
qed

lemma descending_rankedFunds:
  assumes "\<forall>f\<in>set (rankedFunds data). nominalRate f \<noteq> NaN"
  shows "descending (map nominalRate (rankedFunds data))"
  using sorted_desc_rankedFunds [OF assms] by (simp add: descending_def sorted_wrt_map)

lemma rank_nth_rankedFunds:
  assumes "i < length (rankedFunds data)"
  shows "rank (rankedFunds data ! i) = Suc i"
proof -
  have "rank (rankedFunds data ! i) = map rank (rankedFunds data) ! i"
    using assms by simp
  also have "\<dots> = [1..<Suc (length (rankedFunds data))] ! i"
    by (simp only: map_rank_rankedFunds [symmetric])
  also have "\<dots> = Suc i"
    using assms by (simp del: upt_Suc)
  finally show ?thesis .
qed

lemma rank_order_rankedFunds:
  assumes "\<forall>f\<in>set (rankedFunds data). nominalRate f \<noteq> NaN"
    and "a \<in> set (rankedFunds data)" "b \<in> set (rankedFunds data)"
    and "js_less (nominalRate b) (nominalRate a)"
  shows "rank a < rank b"
proof -
  obtain i j where i: "i < length (rankedFunds data)" "rankedFunds data ! i = a"
    and j: "j < length (rankedFunds data)" "rankedFunds data ! j = b"
    using assms(2,3) by (auto simp: in_set_conv_nth)
  have excl: "\<not> js_le x y" if "js_less y x" for x y
    using that by (cases x; cases y) simp_all
  have "i < j"
  proof (rule ccontr)
    assume "\<not> i < j"
    then consider "i = j" | "j < i" by linarith
    then show False
    proof cases
      case 1
      then have "a = b" using i j by simp
      then show ?thesis using assms(4) by (cases "nominalRate a") simp_all
    next
      case 2
      then have "js_le (nominalRate (rankedFunds data ! i)) (nominalRate (rankedFunds data ! j))"
        using sorted_desc_rankedFunds [OF assms(1)] i(1) by (simp add: sorted_wrt_iff_nth_less)
      then show ?thesis using i j excl [OF assms(4)] by simp
    qed
  qed
  then show ?thesis
    using rank_nth_rankedFunds [OF i(1)] rank_nth_rankedFunds [OF j(1)] i j by simp
qed

lemma stable_rankedFunds:
  assumes "\<forall>f\<in>set (rankedFunds data). nominalRate f \<noteq> NaN"
  shows "map name (filter (\<lambda>f. nominalRate f = v) (rankedFunds data))
   = map fst (filter (\<lambda>e. average (nominalRates (snd e)) = v) (fundsData data))"
proof -
  note nn = no_NaN_rankedFunds [OF assms]
  have enum: "map name (filter (\<lambda>f. nominalRate f = v) (map withRank (enumerate n ys)))
      = map name (filter (\<lambda>f. nominalRate f = v) ys)" for n and ys :: "NamedAverages list"
    by (induction ys arbitrary: n) (simp_all add: withRank_def)
  have name: "map name (filter (\<lambda>f. nominalRate f = v) (map namedAverages (fundsData data)))
      = map fst (filter (\<lambda>e. average (nominalRates (snd e)) = v) (fundsData data))"
    by (induction "fundsData data")
      (auto simp: namedAverages_def getAverages_def filter_map comp_def case_prod_unfold)
  show ?thesis
  proof (cases v)
    case NaN
    have "filter (\<lambda>f. nominalRate f = v) (rankedFunds data) = []"
      using assms NaN by (auto simp: filter_empty_conv)
    moreover have "filter (\<lambda>f. nominalRate f = v) (map namedAverages (fundsData data)) = []"
      using nn NaN by (auto simp: filter_empty_conv)
    ultimately show ?thesis
      using name by simp
  next
    case (Num r)
    have key: "(nominalRate f = v) = (- numberValue (nominalRate f) = - r)"
      if "nominalRate f \<noteq> NaN" for f :: NamedAverages
      using that Num by (cases "nominalRate f") (simp_all add: numberValue_def)
    have sf: "\<forall>f\<in>set (sortedFunds data). nominalRate f \<noteq> NaN"
      using nn by (simp add: sortedFunds_def)
    have "map name (filter (\<lambda>f. nominalRate f = v) (rankedFunds data))
        = map name (filter (\<lambda>f. nominalRate f = v) (sortedFunds data))"
      by (simp add: rankedFunds_sort_key [OF nn] enum)
    also have "filter (\<lambda>f. nominalRate f = v) (sortedFunds data)
        = filter (\<lambda>f. - numberValue (nominalRate f) = - r) (sortedFunds data)"
      by (rule filter_cong [OF refl]) (use sf key in blast)
    also have "\<dots> = filter (\<lambda>f. - numberValue (nominalRate f) = - r)
        (map namedAverages (fundsData data))"
      unfolding sortedFunds_def by (rule sort_key_stable)
    also have "\<dots> = filter (\<lambda>f. nominalRate f = v) (map namedAverages (fundsData data))"
      by (rule filter_cong [OF refl, symmetric]) (use nn key in blast)
    finally show ?thesis
      using name by simp
  qed
qed

subsection \<open>The try block\<close>

lemma addFunds_snd: "snd (addFunds data fs) = (if None \<in> set fs then Some TypeError else None)"
  by (induction data fs rule: addFunds.induct) auto

lemma addFunds_statistics: "statistics (fst (addFunds data fs)) = statistics data"
  by (induction data fs rule: addFunds.induct) (auto simp: addFundData_def Let_def)

lemma addDay_eq:
  "addDay d md data =
     (case day_funds d of
        None \<Rightarrow> (data, Some TypeError)
      | Some fs \<Rightarrow>
          if None \<in> set fs then (fst (addFunds data fs), Some TypeError)
          else (case day_statistics md of
                  None \<Rightarrow> (fst (addFunds data fs), Some TypeError)
                | Some st \<Rightarrow> (addStatistics (fst (addFunds data fs)) st, None)))"
proof (cases "day_funds d")
  case None
  then show ?thesis by (simp add: addDay_def)
next
  case (Some fs)
  obtain data1 e where r: "addFunds data fs = (data1, e)"
    by (cases "addFunds data fs")
  have e: "e = (if None \<in> set fs then Some TypeError else None)"
    using addFunds_snd [of data fs] r by simp
  show ?thesis
    using Some r e by (simp add: addDay_def split: option.splits)
qed

lemma addDay_snd:
  "snd (addDay d md data) = (if dayThrows d md then Some TypeError else None)"
  by (simp add: addDay_eq dayThrows_def split: option.splits)

lemma addDay_statistics:
  "statistics (fst (addDay d md data)) =
     (if dayThrows d md then statistics data
      else (case day_statistics md of None \<Rightarrow> statistics data
            | Some st \<Rightarrow> addMetrics (statistics data) (nominalRate st) (afterTaxReturn st) (realReturn st)))"
  by (simp add: addDay_eq dayThrows_def addFunds_statistics addStatistics_def split: option.splits)

lemma tryBlock_no_date: "dayDate d = None \<Longrightarrow> tryBlock m d = (m, Some TypeError)"
  by (auto simp: tryBlock_def dayDate_def split: option.splits date_value.splits)

lemma map_of_ensure:
  "map_of (if \<not> Map_has m k then AList.update k v m else m) k
   = Some (case map_of m k of None \<Rightarrow> v | Some w \<Rightarrow> w)"
  by (auto simp: Map_has_def update_conv' split: option.splits)

lemma tryBlock_date:
  assumes "metadata d = Some md" "date md = DateString dt"
  shows "tryBlock m d =
    (let k = monthYearOf dt;
         m1 = (if \<not> Map_has m k then AList.update k new_MonthData m else m);
         data = (case map_of m k of None \<Rightarrow> new_MonthData | Some w \<Rightarrow> w)
     in (AList.update k (fst (addDay d md data)) m1, snd (addDay d md data)))"
  using assms map_of_ensure [of m "monthYearOf dt" new_MonthData]
  by (simp add: tryBlock_def Let_def split: prod.splits)

lemma keys_ensure:
  "map fst (AList.update k v' (if \<not> Map_has m k then AList.update k v m else m))
   = (if k \<in> set (map fst m) then map fst m else map fst m @ [k])"
  by (auto simp: Map_has_def update_keys map_of_eq_None_iff dom_update)

lemma keys_tryBlock:
  "map fst (fst (tryBlock m d)) =
     (case dayDate d of None \<Rightarrow> map fst m
      | Some dt \<Rightarrow> if monthYearOf dt \<in> set (map fst m) then map fst m else map fst m @ [monthYearOf dt])"
proof (cases "dayDate d")
  case None
  then show ?thesis by (simp add: tryBlock_no_date)
next
  case (Some dt)
  then obtain md where md: "metadata d = Some md" "date md = DateString dt"
    by (auto simp: dayDate_def split: option.splits date_value.splits)
  show ?thesis
    using keys_ensure [of "monthYearOf dt" _ m new_MonthData]
    by (simp add: tryBlock_date [OF md] Some Let_def)
qed

lemma tryBlock_snd:
  "snd (tryBlock m d) =
    (case metadata d of None \<Rightarrow> Some TypeError
     | Some md \<Rightarrow> (case date md of NotString p \<Rightarrow> Some TypeError
         | DateString dt \<Rightarrow> if dayThrows d md then Some TypeError else None))"
proof (cases "metadata d")
  case None
  then show ?thesis by (simp add: tryBlock_def)
next
  case (Some md)
  show ?thesis
  proof (cases "date md")
    case (NotString p)
    then show ?thesis using Some by (simp add: tryBlock_def)
  next
    case (DateString dt)
    show ?thesis
      using Some DateString
      by (simp add: tryBlock_date [OF Some DateString] Let_def addDay_snd)
  qed
qed

lemma contribution_eq:
  "contribution d =
    (case metadata d of None \<Rightarrow> None
     | Some md \<Rightarrow> (case date md of NotString p \<Rightarrow> None
         | DateString dt \<Rightarrow> if dayThrows d md then None
              else map_option (\<lambda>st. (monthYearOf dt, st)) (day_statistics md)))"
proof -
  have "contribution d = (case snd (tryBlock [] d) of Some e \<Rightarrow> None
      | None \<Rightarrow> (case metadata d of None \<Rightarrow> None
           | Some md \<Rightarrow> (case date md of NotString p \<Rightarrow> None
              | DateString dt \<Rightarrow> map_option (\<lambda>st. (monthYearOf dt, st)) (day_statistics md))))"
    by (simp add: contribution_def split: prod.splits option.splits date_value.splits)
  then show ?thesis
    by (simp add: tryBlock_snd split: option.splits date_value.splits)
qed

lemma distinct_tryBlock:
  "distinct (map fst m) \<Longrightarrow> distinct (map fst (fst (tryBlock m d)))"
  by (auto simp: keys_tryBlock split: option.splits)

lemma addFunds_fst:
  "fst (addFunds data fs) = foldl addFundData data (List.map_filter id (takeWhile (\<lambda>f. f \<noteq> None) fs))"
  by (induction data fs rule: addFunds.induct) (simp_all add: List.map_filter_simps)

lemma fundsData_addStatistics: "fundsData (addStatistics data st) = fundsData data"
  by (simp add: addStatistics_def)

lemma addDay_fundsData:
  "fundsData (fst (addDay d md data)) = fundsData (foldl addFundData data (addedFunds d))"
  by (simp add: addDay_eq addedFunds_def addFunds_fst fundsData_addStatistics split: option.splits)

lemma dataOf_tryBlock:
  "dataOf (fst (tryBlock m d)) k =
    (case metadata d of None \<Rightarrow> dataOf m k
     | Some md \<Rightarrow> (case date md of NotString p \<Rightarrow> dataOf m k
        | DateString dt \<Rightarrow> if monthYearOf dt = k then fst (addDay d md (dataOf m k)) else dataOf m k))"
proof (cases "metadata d")
  case None
  then show ?thesis by (simp add: tryBlock_def)
next
  case (Some md)
  show ?thesis
  proof (cases "date md")
    case (NotString p)
    then show ?thesis using Some by (simp add: tryBlock_def)
  next
    case (DateString dt)
    show ?thesis
      using Some DateString
      by (auto simp: tryBlock_date [OF Some DateString] Let_def dataOf_def
          update_conv' Map_has_def split: option.splits)
  qed
qed

subsection \<open>The loop over the records\<close>

lemma catchBlock_tryBlock: "catchBlock d \<noteq> None \<Longrightarrow> snd (tryBlock m d) \<noteq> None"
  by (auto simp: catchBlock_def tryBlock_snd split: option.splits date_value.splits)

lemma processDay_eq:
  "processDay m d = (if catchBlock d = None then Inr (fst (tryBlock m d)) else Inl TypeError)"
proof -
  obtain m1 e where r: "tryBlock m d = (m1, e)"
    by (cases "tryBlock m d")
  have "catchBlock d \<noteq> None \<Longrightarrow> e \<noteq> None"
    using catchBlock_tryBlock [of d m] r by simp
  then show ?thesis
    using r
    by (cases "catchBlock d"; cases e; cases "the (catchBlock d)") (auto simp: processDay_def)
qed

lemma forEachDay_eq:
  "forEachDay m ds =
     (if \<forall>d\<in>set ds. catchBlock d = None
      then Inr (foldl (\<lambda>m d. fst (tryBlock m d)) m ds)
      else Inl TypeError)"
proof (induction ds arbitrary: m)
  case Nil
  then show ?case by simp
next
  case (Cons d ds)
  then show ?case
    by (cases "catchBlock d") (simp_all add: processDay_eq)
qed

lemma keys_foldl_tryBlock:
  "fst ` set (foldl (\<lambda>m d. fst (tryBlock m d)) m ds)
   = fst ` set m \<union> {k. \<exists>d \<in> set ds. dayKey d = Some k}"
proof (induction ds arbitrary: m)
  case Nil
  then show ?case by simp
next
  case (Cons d ds)
  have "fst ` set (fst (tryBlock m d))
      = fst ` set m \<union> {k. dayKey d = Some k}"
    using arg_cong [OF keys_tryBlock [of m d], of set]
    by (auto simp: dayKey_def split: option.splits if_splits)
  then show ?case
    using Cons.IH [of "fst (tryBlock m d)"] by auto
qed

lemma distinct_foldl_tryBlock:
  "distinct (map fst m) \<Longrightarrow> distinct (map fst (foldl (\<lambda>m d. fst (tryBlock m d)) m ds))"
  by (induction ds arbitrary: m) (simp_all add: distinct_tryBlock)

lemma dayStats_Nil: "dayStats k [] = []"
  by (simp add: dayStats_def List.map_filter_simps)

lemma dayStats_Cons:
  "dayStats k (d # ds) =
     (case contribution d of None \<Rightarrow> dayStats k ds
      | Some p \<Rightarrow> if fst p = k then snd p # dayStats k ds else dayStats k ds)"
  by (simp add: dayStats_def List.map_filter_simps split: option.splits)

lemma monthFunds_Nil: "monthFunds k [] = []"
  by (simp add: monthFunds_def)

lemma monthFunds_Cons:
  "monthFunds k (d # ds) =
     (if dayKey d = Some k then addedFunds d @ monthFunds k ds
      else monthFunds k ds)"
  by (auto simp: monthFunds_def)

lemma statistics_step:
  "statistics (dataOf (fst (tryBlock m d)) k) =
     (case contribution d of None \<Rightarrow> statistics (dataOf m k)
      | Some p \<Rightarrow> if fst p = k then addStat (statistics (dataOf m k)) (snd p)
                  else statistics (dataOf m k))"
  by (auto simp: dataOf_tryBlock contribution_eq addDay_statistics addStat_def
      split: option.splits date_value.splits)

lemma fundsData_step:
  "fundsData (dataOf (fst (tryBlock m d)) k) =
     (if dayKey d = Some k
      then fundsData (foldl addFundData (dataOf m k) (addedFunds d))
      else fundsData (dataOf m k))"
  by (auto simp: dataOf_tryBlock dayKey_def dayDate_def addDay_fundsData
      split: option.splits date_value.splits)

lemma statistics_foldl_tryBlock:
  "statistics (dataOf (foldl (\<lambda>m d. fst (tryBlock m d)) m ds) k)
   = foldl addStat (statistics (dataOf m k)) (dayStats k ds)"
proof (induction ds arbitrary: m)
  case Nil
  then show ?case by (simp add: dayStats_Nil)
next
  case (Cons d ds)
  show ?case
    by (simp add: Cons.IH statistics_step dayStats_Cons split: option.splits)
qed

lemma fundsData_foldl_addFundData_cong:
  "fundsData a = fundsData b \<Longrightarrow> fundsData (foldl addFundData a fs) = fundsData (foldl addFundData b fs)"
  by (induction fs arbitrary: a b) (simp_all add: addFundData_def Let_def)

lemma fundsData_foldl_tryBlock:
  "fundsData (dataOf (foldl (\<lambda>m d. fst (tryBlock m d)) m ds) k)
   = fundsData (foldl addFundData (dataOf m k) (monthFunds k ds))"
proof (induction ds arbitrary: m)
  case Nil
  then show ?case by (simp add: monthFunds_Nil)
next
  case (Cons d ds)
  have "fundsData (foldl addFundData (dataOf (fst (tryBlock m d)) k) (monthFunds k ds))
      = fundsData (foldl addFundData (dataOf m k) (monthFunds k (d # ds)))"
  proof (cases "dayKey d = Some k")
    case True
    have "fundsData (dataOf (fst (tryBlock m d)) k)
        = fundsData (foldl addFundData (dataOf m k) (addedFunds d))"
      using True by (simp add: fundsData_step)
    from fundsData_foldl_addFundData_cong [OF this, of "monthFunds k ds"]
    show ?thesis using True by (simp add: monthFunds_Cons)
  next
    case False
    have "fundsData (dataOf (fst (tryBlock m d)) k) = fundsData (dataOf m k)"
      using False by (auto simp: fundsData_step)
    from fundsData_foldl_addFundData_cong [OF this, of "monthFunds k ds"]
    show ?thesis using False by (simp add: monthFunds_Cons)
  qed
  then show ?case
    by (simp add: Cons.IH)
qed

subsection \<open>The funds of a bucket\<close>

lemma firstAppearance_snoc:
  "firstAppearance (xs @ [x]) = (if x \<in> set xs then firstAppearance xs else firstAppearance xs @ [x])"
  by (simp add: firstAppearance_def)

lemma set_firstAppearance: "set (firstAppearance xs) = set xs"
  by (simp add: firstAppearance_def)

lemma distinct_firstAppearance: "distinct (firstAppearance xs)"
  by (simp add: firstAppearance_def)

lemma map_entry_tab:
  "distinct ks \<Longrightarrow>
   AList.map_entry k g (map (\<lambda>n. (n, h n)) ks) = map (\<lambda>n. (n, if n = k then g (h n) else h n)) ks"
  by (induction ks) auto

lemma update_tab_new:
  "k \<notin> set ks \<Longrightarrow> AList.update k v (map (\<lambda>n. (n, h n)) ks) = map (\<lambda>n. (n, h n)) ks @ [(k, v)]"
  by (induction ks) auto

lemma map_entry_last:
  "k \<notin> fst ` set al \<Longrightarrow> AList.map_entry k g (al @ [(k, v)]) = al @ [(k, g v)]"
  by (induction al) auto

lemma fundsData_addFundData_tab:
  assumes "fundsData data = fundsTable fs"
  shows "fundsData (addFundData data f) = fundsTable (fs @ [f])"
proof (cases "fund_name f \<in> set (map fund_name fs)")
  case True
  then have has: "Map_has (fundsTable fs) (fund_name f)"
    by (auto simp: Map_has_def fundsTable_def map_of_eq_None_iff set_firstAppearance image_iff)
  have "AList.map_entry (fund_name f) (\<lambda>fm. addFund fm f) (fundsTable fs) = fundsTable (fs @ [f])"
    using True
    by (simp add: fundsTable_def map_entry_tab distinct_firstAppearance firstAppearance_snoc samplesOf_def)
  then show ?thesis
    using assms has by (simp add: addFundData_def Let_def addFund_def)
next
  case False
  then have has: "\<not> Map_has (fundsTable fs) (fund_name f)"
    by (auto simp: Map_has_def fundsTable_def map_of_eq_None_iff set_firstAppearance image_iff)
  have notin: "fund_name f \<notin> set (firstAppearance (map fund_name fs))"
    using False by (simp add: set_firstAppearance)
  have upd: "AList.update (fund_name f) new_FundMetrics (fundsTable fs) = fundsTable fs @ [(fund_name f, new_FundMetrics)]"
    unfolding fundsTable_def by (rule update_tab_new [OF notin])
  have "fund_name f \<notin> fst ` set (fundsTable fs)"
    using notin by (auto simp: fundsTable_def)
  then have "AList.map_entry (fund_name f) (\<lambda>fm. addFund fm f) (fundsTable fs @ [(fund_name f, new_FundMetrics)])
      = fundsTable fs @ [(fund_name f, addFund new_FundMetrics f)]"
    by (rule map_entry_last)
  moreover have "filter (\<lambda>g. fund_name g = fund_name f) fs = []"
    using False by (force simp: filter_empty_conv image_iff)
  then have "fundsTable fs @ [(fund_name f, addFund new_FundMetrics f)] = fundsTable (fs @ [f])"
    using False notin
    by (auto simp: fundsTable_def firstAppearance_snoc samplesOf_def set_firstAppearance)
  ultimately show ?thesis
    using assms has upd by (simp add: addFundData_def Let_def addFund_def)
qed

lemma fundsData_foldl_addFundData:
  assumes "fundsData data = []"
  shows "fundsData (foldl addFundData data fs) = fundsTable fs"
proof (induction fs rule: rev_induct)
  case Nil
  then show ?case using assms by (simp add: fundsTable_def firstAppearance_def)
next
  case (snoc f fs)
  then show ?case
    by (simp add: fundsData_addFundData_tab)
qed

lemma nominalRates_foldl_addFund:
  "nominalRates (foldl addFund fm fs) = nominalRates fm @ map nominalRate fs"
  by (induction fs arbitrary: fm) (simp_all add: addFund_def addMetrics_def)

lemma foldl_addStat:
  "foldl addStat fm sts =
     \<lparr>nominalRates = nominalRates fm @ map nominalRate sts,
      afterTaxReturns = afterTaxReturns fm @ map afterTaxReturn sts,
      realReturns = realReturns fm @ map realReturn sts,
      count = count fm + length sts\<rparr>"
  by (induction sts arbitrary: fm) (simp_all add: addStat_def addMetrics_def)

text \<open>The buckets of the result.\<close>

lemma bucket_of_result:
  assumes "forEachDay [] ds = Inr mm" "(k, data) \<in> set mm"
  shows "fundsData data = fundsTable (monthFunds k ds)"
    and "statistics data = foldl addStat new_FundMetrics (dayStats k ds)"
    and "\<exists>d\<in>set ds. dayKey d = Some k"
proof -
  have mm: "mm = foldl (\<lambda>m d. fst (tryBlock m d)) [] ds"
    using assms(1) by (simp add: forEachDay_eq split: if_splits)
  have "distinct (map fst mm)"
    unfolding mm by (rule distinct_foldl_tryBlock) simp
  then have "map_of mm k = Some data"
    using assms(2) by simp
  then have d: "dataOf mm k = data"
    by (simp add: dataOf_def)
  have e: "dataOf [] k = new_MonthData"
    by (simp add: dataOf_def)
  have "fundsData (dataOf mm k) = fundsData (foldl addFundData (dataOf [] k) (monthFunds k ds))"
    unfolding mm by (rule fundsData_foldl_tryBlock)
  then show "fundsData data = fundsTable (monthFunds k ds)"
    by (simp add: d e fundsData_foldl_addFundData new_MonthData_def)
  have "statistics (dataOf mm k) = foldl addStat (statistics (dataOf [] k)) (dayStats k ds)"
    unfolding mm by (rule statistics_foldl_tryBlock)
  then show "statistics data = foldl addStat new_FundMetrics (dayStats k ds)"
    by (simp add: d e new_MonthData_def)
  have "k \<in> fst ` set mm"
    using assms(2) by force
  then show "\<exists>d\<in>set ds. dayKey d = Some k"
    unfolding mm keys_foldl_tryBlock by simp
qed

subsection \<open>The detailed statistics\<close>

lemma length_js_sort_undefined: "length (js_sort_undefined cmp xs) = length xs"
proof -
  have "length (List.map_filter id xs) + length (filter (\<lambda>x. x = None) xs) = length xs"
    by (induction xs) (auto simp: List.map_filter_simps split: option.splits)
  then show ?thesis
    by (simp add: js_sort_undefined_def length_js_sort)
qed

lemma js_sort_undefined_defined:
  assumes "None \<notin> set xs"
  shows "js_sort_undefined cmp xs = map Some (js_sort cmp (List.map_filter id xs))"
proof -
  have "x \<noteq> None" if "x \<in> set xs" for x
  proof
    assume "x = None"
    with that have "None \<in> set xs" by simp
    with assms show False by simp
  qed
  then have "filter (\<lambda>x. x = None) xs = []"
    by (simp add: filter_empty_conv)
  then show ?thesis
    by (simp add: js_sort_undefined_def)
qed

lemma median_defined:
  assumes "None \<notin> set arr"
  shows "\<exists>m. median arr = Inr m"
proof (cases "arr = []")
  case True
  then show ?thesis by (simp add: median_def)
next
  case False
  let ?s = "js_sort_undefined (\<lambda>a b. a - b) arr"
  have len: "length ?s = length arr"
    by (rule length_js_sort_undefined)
  have "length ?s div 2 < length ?s"
    using False len by simp
  then have "?s ! (length ?s div 2) \<in> set ?s"
    by (rule nth_mem)
  then have "?s ! (length ?s div 2) \<noteq> None"
    by (auto simp: js_sort_undefined_defined [OF assms])
  then obtain x where "?s ! (length ?s div 2) = Some x"
    by auto
  then show ?thesis
    using False by (simp add: median_def Let_def)
qed

lemma detail_defined:
  assumes "None \<notin> set arr"
  shows "\<exists>d. detail arr = Inr d"
  using median_defined [OF assms] by (auto simp: detail_def)

lemma getDetailedStats_defined:
  assumes "None \<notin> set (nominalRates fm)" and "None \<notin> set (afterTaxReturns fm)"
    and "None \<notin> set (realReturns fm)"
  shows "\<exists>d. getDetailedStats fm = Inr d"
  using detail_defined [OF assms(1)] detail_defined [OF assms(2)] detail_defined [OF assms(3)]
  by (auto simp: getDetailedStats_def)

lemma getDetailedStats_numeric:
  assumes "\<forall>st\<in>set sts. numeric st"
  shows "\<exists>d. getDetailedStats (foldl addStat new_FundMetrics sts) = Inr d"
  by (rule getDetailedStats_defined)
    (use assms in \<open>auto simp: foldl_addStat new_FundMetrics_def numeric_def\<close>)

subsection \<open>The elements of the result\<close>

lemma js_map_Inr:
  "js_map f xs = Inr ys \<Longrightarrow> list_all2 (\<lambda>x y. f x = Inr y) xs ys"
  by (induction xs arbitrary: ys) (auto split: sum.splits)

lemma js_map_result:
  "js_map f xs = Inr ys \<Longrightarrow> y \<in> set ys \<Longrightarrow> \<exists>x\<in>set xs. f x = Inr y"
  by (induction xs arbitrary: ys) (auto split: sum.splits)

lemma js_map_source:
  "js_map f xs = Inr ys \<Longrightarrow> x \<in> set xs \<Longrightarrow> \<exists>y\<in>set ys. f x = Inr y"
  by (induction xs arbitrary: ys) (auto split: sum.splits)

lemma js_map_defined:
  assumes "\<forall>x\<in>set xs. \<exists>y. f x = Inr y"
  shows "\<exists>ys. js_map f xs = Inr ys"
  using assms by (induction xs) (auto split: sum.splits)

lemma month_summaryObject: "month (summaryObject k data det) = k"
  by (simp add: summaryObject_def Let_def)

lemma funds_summaryObject: "funds (summaryObject k data det) = rankedFunds data"
  by (simp add: summaryObject_def Let_def)

lemma totalFunds_summaryObject:
  "totalFunds (summaryObject k data det) = length (rankedFunds data)"
  by (simp add: summaryObject_def Let_def)

lemma topPerformer_summaryObject:
  "topPerformer (summaryObject k data det) = js_index (rankedFunds data) 0"
  by (simp add: summaryObject_def Let_def)

lemma bottomPerformer_summaryObject:
  "bottomPerformer (summaryObject k data det)
   = js_index (rankedFunds data) (int (length (rankedFunds data)) - 1)"
  by (simp add: summaryObject_def Let_def)

lemma statistics_average_summaryObject:
  "statistics_average (summaryObject k data det) = getAverages (statistics data)"
  by (simp add: summaryObject_def Let_def)

lemma monthSummary_Inr:
  assumes "monthSummary e = Inr ms"
  shows "\<exists>det. getDetailedStats (statistics (snd e)) = Inr det
           \<and> ms = summaryObject (fst e) (snd e) det"
  using assms by (cases e) (auto simp: monthSummary_def split: sum.splits)

lemma processMonthlyData_Inr:
  assumes "processMonthlyData ds = Inr out"
  shows "\<exists>mm summaries. forEachDay [] ds = Inr mm \<and> js_map monthSummary mm = Inr summaries
           \<and> out = js_sort (\<lambda>a b. SortCompare (compareMonths a b)) summaries"
  using assms by (auto simp: processMonthlyData_def split: sum.splits)

lemma runView_Inr: "processMonthlyData ds = Inr out \<Longrightarrow> runView f ds = Inr (map f out)"
  by (simp add: runView_def)

lemma result_elements:
  assumes "processMonthlyData ds = Inr out" and "ms \<in> set out"
  shows "\<exists>mm data det. forEachDay [] ds = Inr mm \<and> (month ms, data) \<in> set mm
           \<and> getDetailedStats (statistics data) = Inr det
           \<and> ms = summaryObject (month ms) data det"
proof -
  obtain mm summaries where mm: "forEachDay [] ds = Inr mm"
    and summaries: "js_map monthSummary mm = Inr summaries"
    and out: "out = js_sort (\<lambda>a b. SortCompare (compareMonths a b)) summaries"
    using processMonthlyData_Inr [OF assms(1)] by blast
  have "ms \<in> set summaries"
    using assms(2) by (simp add: out set_js_sort)
  then obtain e where e: "e \<in> set mm" "monthSummary e = Inr ms"
    using js_map_result [OF summaries] by blast
  then obtain det where det: "getDetailedStats (statistics (snd e)) = Inr det"
    "ms = summaryObject (fst e) (snd e) det"
    using monthSummary_Inr by blast
  then have "month ms = fst e"
    by (simp add: month_summaryObject)
  then show ?thesis
    using mm e(1) det by (cases e) auto
qed

lemma result_has_bucket:
  assumes "processMonthlyData ds = Inr out" and "d \<in> set ds" and "dayKey d = Some k"
  shows "\<exists>ms\<in>set out. month ms = k"
proof -
  obtain mm summaries where mm: "forEachDay [] ds = Inr mm"
    and summaries: "js_map monthSummary mm = Inr summaries"
    and out: "out = js_sort (\<lambda>a b. SortCompare (compareMonths a b)) summaries"
    using processMonthlyData_Inr [OF assms(1)] by blast
  have "mm = foldl (\<lambda>m d. fst (tryBlock m d)) [] ds"
    using mm by (simp add: forEachDay_eq split: if_splits)
  then have "k \<in> fst ` set mm"
    using assms(2,3) by (auto simp: keys_foldl_tryBlock)
  then obtain data where "(k, data) \<in> set mm"
    by auto
  then obtain ms where ms: "ms \<in> set summaries" "monthSummary (k, data) = Inr ms"
    using js_map_source [OF summaries] by blast
  then have "month ms = k"
    using monthSummary_Inr [OF ms(2)] by (auto simp: month_summaryObject)
  then show ?thesis
    using ms(1) by (auto simp: out set_js_sort)
qed

text \<open>
  The run returns when the \<open>catch\<close> block of no record throws and every day triple
  that is appended holds three numbers.
\<close>

lemma processMonthlyData_defined:
  assumes "\<forall>d\<in>set ds. catchBlock d = None"
    and "\<forall>d\<in>set ds. \<forall>k st. contribution d = Some (k, st) \<longrightarrow> numeric st"
  shows "\<exists>out. processMonthlyData ds = Inr out"
proof -
  obtain mm where mm: "forEachDay [] ds = Inr mm"
    using assms(1) by (simp add: forEachDay_eq)
  have num: "\<forall>st\<in>set (dayStats k ds). numeric st" for k
    using assms(2) by (force simp: dayStats_def List.map_filter_def)
  have "\<exists>y. monthSummary e = Inr y" if "e \<in> set mm" for e
  proof -
    obtain k data where e: "e = (k, data)" by (cases e)
    have "statistics data = foldl addStat new_FundMetrics (dayStats k ds)"
      using bucket_of_result(2) [OF mm] that e by simp
    then obtain det where "getDetailedStats (statistics data) = Inr det"
      using getDetailedStats_numeric [OF num [of k]] by auto
    then show ?thesis
      by (simp add: e monthSummary_def)
  qed
  then obtain summaries where "js_map monthSummary mm = Inr summaries"
    using js_map_defined [of mm monthSummary] by blast
  then show ?thesis
    by (simp add: processMonthlyData_def mm)
qed

lemma nominalRate_in_rankedFunds:
  assumes "fundsData data = fundsTable fs" and "f \<in> set (rankedFunds data)"
  shows "nominalRate f = average (map nominalRate (samplesOf (name f) fs))"
proof -
  have "set (rankedFunds data)
      = withRank ` set (enumerate 0
          (js_sort (\<lambda>a b. SortCompare (compareFunds a b)) (map namedAverages (fundsData data))))"
    by (simp add: rankedFunds_def)
  then obtain p where p: "f = withRank p"
    "p \<in> set (enumerate 0
          (js_sort (\<lambda>a b. SortCompare (compareFunds a b)) (map namedAverages (fundsData data))))"
    using assms(2) by auto
  obtain i g where ig: "p = (i, g)" by (cases p)
  have "g \<in> set (js_sort (\<lambda>a b. SortCompare (compareFunds a b))
      (map namedAverages (fundsData data)))"
    using p(2) unfolding ig in_set_enumerate_eq by (auto intro: nth_mem)
  then have "f = withRank (i, g)" "g \<in> set (map namedAverages (fundsData data))"
    using p(1) ig by (simp_all only: set_js_sort)
  then obtain e where e: "e \<in> set (fundsTable fs)" "g = namedAverages e"
    using assms(1) by auto
  then have "snd e = foldl addFund new_FundMetrics (samplesOf (fst e) fs)"
    by (auto simp: fundsTable_def)
  then have "nominalRate g = average (map nominalRate (samplesOf (name g) fs))"
    using e(2)
    by (simp add: namedAverages_def case_prod_unfold getAverages_def nominalRates_foldl_addFund
        new_FundMetrics_def)
  then show ?thesis
    using \<open>f = withRank (i, g)\<close> by (simp add: withRank_def)
qed

lemma stable_tab:
  "map fst (filter (\<lambda>e. average (nominalRates (snd e)) = v) (fundsTable fs))
   = filter (\<lambda>n. average (map nominalRate (samplesOf n fs)) = v) (firstAppearance (map fund_name fs))"
  by (simp add: fundsTable_def filter_map comp_def nominalRates_foldl_addFund new_FundMetrics_def)

section \<open>Properties\<close>

text \<open>
  C7. The statistics functions are defined on the empty sequence: \<open>average\<close>, \<open>median\<close>
  and \<open>stdDev\<close> each return 0 there, and \<open>median\<close> does so without throwing.
\<close>

theorem statistics_empty: "average [] = Num 0 \<and> median [] = Inr (Num 0) \<and> stdDev [] = Num 0"
  by (simp add: average_def median_def stdDev_def)

text \<open>
  C4, as amended. In every element of the result the ranks of the funds are 1, 2, ...
  in the order of the list, hence distinct and between 1 and \<open>totalFunds\<close>, and the
  rate of a fund is the average of its samples of the month. When none of these
  averages is \<open>NaN\<close>, the funds are sorted by descending average nominal rate, a fund
  with a strictly greater rate has a strictly smaller rank, and the sort is stable: the
  funds with a given rate stand in the order of their first appearance in the month.
\<close>

theorem funds_sorted_and_ranked:
  assumes "processMonthlyData dailyData = Inr out" and "ms \<in> set out"
  shows "map rank (funds ms) = [1..<Suc (totalFunds ms)]
       \<and> distinct (map rank (funds ms))
       \<and> (\<forall>f\<in>set (funds ms). 1 \<le> rank f \<and> rank f \<le> totalFunds ms
            \<and> nominalRate f =
                average (map nominalRate (samplesOf (name f) (monthFunds (month ms) dailyData))))
       \<and> ((\<forall>f\<in>set (funds ms). nominalRate f \<noteq> NaN) \<longrightarrow>
            descending (map nominalRate (funds ms))
            \<and> (\<forall>a\<in>set (funds ms). \<forall>b\<in>set (funds ms).
                  js_less (nominalRate b) (nominalRate a) \<longrightarrow> rank a < rank b)
            \<and> (\<forall>v. map name (filter (\<lambda>f. nominalRate f = v) (funds ms)) =
                  filter (\<lambda>n. average (map nominalRate
                                   (samplesOf n (monthFunds (month ms) dailyData))) = v)
                    (firstAppearance (map fund_name (monthFunds (month ms) dailyData)))))"
proof -
  obtain mm data det where mm: "forEachDay [] dailyData = Inr mm" "(month ms, data) \<in> set mm"
    and ms: "ms = summaryObject (month ms) data det"
    using result_elements [OF assms] by blast
  have fd: "fundsData data = fundsTable (monthFunds (month ms) dailyData)"
    by (rule bucket_of_result(1) [OF mm])
  have funds: "funds ms = rankedFunds data"
    by (subst ms) (rule funds_summaryObject)
  have total: "totalFunds ms = length (rankedFunds data)"
    by (subst ms) (rule totalFunds_summaryObject)
  have ranks: "map rank (funds ms) = [1..<Suc (totalFunds ms)]"
    using map_rank_rankedFunds [of data] by (simp only: funds total)
  have range: "1 \<le> rank f \<and> rank f \<le> totalFunds ms" if "f \<in> set (funds ms)" for f
  proof -
    have "rank f \<in> set (map rank (funds ms))"
      using that by simp
    then show ?thesis
      unfolding ranks by auto
  qed
  have "distinct (map rank (funds ms))"
    unfolding ranks by simp
  moreover have "\<forall>f\<in>set (funds ms). 1 \<le> rank f \<and> rank f \<le> totalFunds ms
      \<and> nominalRate f = average (map nominalRate (samplesOf (name f) (monthFunds (month ms) dailyData)))"
    using range nominalRate_in_rankedFunds [OF fd] by (simp add: funds)
  moreover have "descending (map nominalRate (funds ms))
            \<and> (\<forall>a\<in>set (funds ms). \<forall>b\<in>set (funds ms).
                  js_less (nominalRate b) (nominalRate a) \<longrightarrow> rank a < rank b)
            \<and> (\<forall>v. map name (filter (\<lambda>f. nominalRate f = v) (funds ms)) =
                  filter (\<lambda>n. average (map nominalRate
                                   (samplesOf n (monthFunds (month ms) dailyData))) = v)
                    (firstAppearance (map fund_name (monthFunds (month ms) dailyData))))"
    if "\<forall>f\<in>set (funds ms). nominalRate f \<noteq> NaN"
  proof -
    have nn: "\<forall>f\<in>set (rankedFunds data). nominalRate f \<noteq> NaN"
      using that by (simp only: funds)
    have "descending (map nominalRate (funds ms))"
      unfolding funds by (rule descending_rankedFunds [OF nn])
    moreover have "\<forall>a\<in>set (funds ms). \<forall>b\<in>set (funds ms).
        js_less (nominalRate b) (nominalRate a) \<longrightarrow> rank a < rank b"
      unfolding funds using rank_order_rankedFunds [OF nn] by blast
    moreover have "\<forall>v. map name (filter (\<lambda>f. nominalRate f = v) (funds ms)) =
              filter (\<lambda>n. average (map nominalRate
                               (samplesOf n (monthFunds (month ms) dailyData))) = v)
                (firstAppearance (map fund_name (monthFunds (month ms) dailyData)))"
      unfolding funds by (simp add: stable_rankedFunds [OF nn] fd stable_tab)
    ultimately show ?thesis by blast
  qed
  ultimately show ?thesis
    using ranks by blast
qed

lemmas bucket_defs = processDay_def tryBlock_def catchBlock_def addDay_def Map_has_def
  new_MonthData_def dayOf_def

lemmas key_defs = monthYearOf_def js_index_def toUpperCase_def toUpperChar_def template_def

lemmas funds_defs = summaryObject_def rankedFunds_def namedAverages_def withRank_def
  compareFunds_def SortCompare_def getAverages_def average_def numberOf_def round2_def
  js_sort_def js_index_def enumerate_eq_zip
  addFundData_def addStatistics_def addMetrics_def new_MonthData_def new_FundMetrics_def
  fundOf_def rates_def Map_has_def

lemmas sort_defs = SortCompare_def compareMonths_def monthToken_def yearToken_def
  ToNumber_def digitValue_def decimalValue_def monthIndex_def months_def
  js_index_def js_sort_def

lemma key_ex: "monthYearOf ''01 January 2024'' = ''JANUARY 2024''"
  by (simp add: key_defs)

lemma key_feb: "monthYearOf ''02 February 2024'' = ''FEBRUARY 2024''"
  by (simp add: key_defs)

text \<open>
  A run that leaves one bucket, or two, returns their summaries when their detailed
  statistics exist.
\<close>

lemma single_bucket:
  assumes "forEachDay [] ds = Inr [(k, data)]"
    and "getDetailedStats (statistics data) = Inr det"
  shows "processMonthlyData ds = Inr [summaryObject k data det]"
  by (simp add: processMonthlyData_def assms monthSummary_def js_sort_def)

lemma two_buckets:
  assumes "forEachDay [] ds = Inr [(k1, data1), (k2, data2)]"
    and "getDetailedStats (statistics data1) = Inr det1"
    and "getDetailedStats (statistics data2) = Inr det2"
  shows "processMonthlyData ds =
     Inr (js_sort (\<lambda>a b. SortCompare (compareMonths a b))
            [summaryObject k1 data1 det1, summaryObject k2 data2 det2])"
  by (simp add: processMonthlyData_def assms monthSummary_def)

text \<open>
  The tie-break example: A and C share the rate 5 and A appears first; B has 7.
\<close>

theorem funds_sorted_and_ranked_witness:
  "runView (map name \<circ> funds)
     [dayOf ''01 January 2024'' [fundOf ''A'' 5, fundOf ''B'' 7, fundOf ''C'' 5] 6]
     = Inr [[''B'', ''A'', ''C'']]
   \<and> runView (map nominalRate \<circ> funds)
     [dayOf ''01 January 2024'' [fundOf ''A'' 5, fundOf ''B'' 7, fundOf ''C'' 5] 6]
     = Inr [[Num 7, Num 5, Num 5]]
   \<and> runView (map rank \<circ> funds)
     [dayOf ''01 January 2024'' [fundOf ''A'' 5, fundOf ''B'' 7, fundOf ''C'' 5] 6]
     = Inr [[1, 2, 3]]
   \<and> runView (descending \<circ> map nominalRate \<circ> funds)
     [dayOf ''01 January 2024'' [fundOf ''A'' 5, fundOf ''B'' 7, fundOf ''C'' 5] 6]
     = Inr [True]"
proof -
  let ?ds = "[dayOf ''01 January 2024'' [fundOf ''A'' 5, fundOf ''B'' 7, fundOf ''C'' 5] 6]"
  let ?data = "addStatistics
          (foldl addFundData new_MonthData [fundOf ''A'' 5, fundOf ''B'' 7, fundOf ''C'' 5])
          (rates 6)"
  have loop: "forEachDay [] ?ds = Inr [(''JANUARY 2024'', ?data)]"
    by (simp add: bucket_defs key_ex)
  obtain det where det: "getDetailedStats (statistics ?data) = Inr det"
    using getDetailedStats_defined [of "statistics ?data"]
    by (auto simp: addStatistics_def addMetrics_def rates_def addFundData_def Let_def
        new_MonthData_def new_FundMetrics_def)
  let ?ms = "summaryObject ''JANUARY 2024'' ?data det"
  have run: "processMonthlyData ?ds = Inr [?ms]"
    by (rule single_bucket [OF loop det])
  have mem: "?ms \<in> set [?ms]"
    by simp
  have names: "map name (funds ?ms) = [''B'', ''A'', ''C'']"
    by (simp add: funds_defs)
  have vals: "map nominalRate (funds ?ms) = [Num 7, Num 5, Num 5]"
    by (simp add: funds_defs)
  have nn: "\<forall>f\<in>set (funds ?ms). nominalRate f \<noteq> NaN"
  proof
    fix f assume "f \<in> set (funds ?ms)"
    then have "nominalRate f \<in> set (map nominalRate (funds ?ms))"
      by simp
    then show "nominalRate f \<noteq> NaN"
      unfolding vals by auto
  qed
  have "totalFunds ?ms = 3"
    using arg_cong [OF names, of length] by (simp add: summaryObject_def Let_def)
  then have "map rank (funds ?ms) = [1, 2, 3] \<and> descending (map nominalRate (funds ?ms))"
    using funds_sorted_and_ranked [OF run mem] nn by (simp add: upt_rec)
  then show ?thesis
    using names vals by (simp add: runView_Inr [OF run])
qed

text \<open>
  The claim as stated fails when the average rate of a fund is \<open>NaN\<close>, as it is for a
  fund with a sample that has no \<open>nominalRate\<close>. The comparator then returns \<open>NaN\<close>
  for every pair with that fund, which the sort reads as 0: A, B and C with the rates
  1, \<open>NaN\<close> and 2 stay in this order, so the list is not descending, and C has a
  greater rate than A and a greater rank.
\<close>

theorem NaN_rate_not_sorted:
  "runView (map name \<circ> funds)
     [dayOf ''01 January 2024'' [fundOf ''A'' 1, fundWithoutRate ''B'', fundOf ''C'' 2] 6]
     = Inr [[''A'', ''B'', ''C'']]
   \<and> runView (map nominalRate \<circ> funds)
     [dayOf ''01 January 2024'' [fundOf ''A'' 1, fundWithoutRate ''B'', fundOf ''C'' 2] 6]
     = Inr [[Num 1, NaN, Num 2]]
   \<and> runView (map rank \<circ> funds)
     [dayOf ''01 January 2024'' [fundOf ''A'' 1, fundWithoutRate ''B'', fundOf ''C'' 2] 6]
     = Inr [[1, 2, 3]]
   \<and> runView (descending \<circ> map nominalRate \<circ> funds)
     [dayOf ''01 January 2024'' [fundOf ''A'' 1, fundWithoutRate ''B'', fundOf ''C'' 2] 6]
     = Inr [False]"
proof -
  let ?ds = "[dayOf ''01 January 2024''
                [fundOf ''A'' 1, fundWithoutRate ''B'', fundOf ''C'' 2] 6]"
  let ?data = "addStatistics
          (foldl addFundData new_MonthData
             [fundOf ''A'' 1, fundWithoutRate ''B'', fundOf ''C'' 2])
          (rates 6)"
  have loop: "forEachDay [] ?ds = Inr [(''JANUARY 2024'', ?data)]"
    by (simp add: bucket_defs key_ex)
  obtain det where det: "getDetailedStats (statistics ?data) = Inr det"
    using getDetailedStats_defined [of "statistics ?data"]
    by (auto simp: addStatistics_def addMetrics_def rates_def addFundData_def Let_def
        new_MonthData_def new_FundMetrics_def)
  let ?ms = "summaryObject ''JANUARY 2024'' ?data det"
  have run: "processMonthlyData ?ds = Inr [?ms]"
    by (rule single_bucket [OF loop det])
  have names: "map name (funds ?ms) = [''A'', ''B'', ''C'']"
    by (simp add: funds_defs fundWithoutRate_def)
  have vals: "map nominalRate (funds ?ms) = [Num 1, NaN, Num 2]"
    by (simp add: funds_defs fundWithoutRate_def)
  have ranks: "map rank (funds ?ms) = [1, 2, 3]"
    by (simp add: funds_defs fundWithoutRate_def)
  have "\<not> descending (map nominalRate (funds ?ms))"
    unfolding vals by (simp add: descending_def)
  then show ?thesis
    using names vals ranks by (simp add: runView_Inr [OF run])
qed

lemma find_rank_rankedFunds:
  assumes "k < length (rankedFunds data)"
  shows "find (\<lambda>f. rank f = Suc k) (rankedFunds data) = Some (rankedFunds data ! k)"
  unfolding find_Some_iff
proof (intro exI [of _ k] conjI allI impI)
  show "k < length (rankedFunds data)" by (rule assms)
  show "rank (rankedFunds data ! k) = Suc k" by (rule rank_nth_rankedFunds [OF assms])
  show "rankedFunds data ! k = rankedFunds data ! k" ..
  show "rank (rankedFunds data ! j) \<noteq> Suc k" if "j < k" for j
    using that assms rank_nth_rankedFunds [of j data] by simp
qed

lemma performers_rankedFunds:
  "js_index (rankedFunds data) 0 = find (\<lambda>f. rank f = 1) (rankedFunds data)"
  "js_index (rankedFunds data) (int (length (rankedFunds data)) - 1)
     = find (\<lambda>f. rank f = length (rankedFunds data)) (rankedFunds data)"
proof -
  show "js_index (rankedFunds data) 0 = find (\<lambda>f. rank f = 1) (rankedFunds data)"
  proof (cases "rankedFunds data = []")
    case True
    then show ?thesis by (simp add: js_index_def)
  next
    case False
    then have "0 < length (rankedFunds data)" by simp
    from find_rank_rankedFunds [OF this] show ?thesis
      using False by (simp add: js_index_def)
  qed
  show "js_index (rankedFunds data) (int (length (rankedFunds data)) - 1)
     = find (\<lambda>f. rank f = length (rankedFunds data)) (rankedFunds data)"
  proof (cases "rankedFunds data = []")
    case True
    then show ?thesis by (simp add: js_index_def)
  next
    case False
    then have "length (rankedFunds data) - 1 < length (rankedFunds data)" by simp
    from find_rank_rankedFunds [OF this] show ?thesis
      using False by (simp add: js_index_def nat_diff_distrib')
  qed
qed

text \<open>
  C8. In every element of the result \<open>topPerformer\<close> is the fund of rank 1 and
  \<open>bottomPerformer\<close> the fund whose rank is \<open>totalFunds\<close> (the empty object when there
  is no such fund); with exactly one fund both are that fund, and with at least one
  fund both exist and are funds of the month.
\<close>

theorem top_and_bottom_performer:
  assumes "processMonthlyData dailyData = Inr out" and "ms \<in> set out"
  shows "topPerformer ms = find (\<lambda>f. rank f = 1) (funds ms)
       \<and> bottomPerformer ms = find (\<lambda>f. rank f = totalFunds ms) (funds ms)
       \<and> (totalFunds ms = 1 \<longrightarrow> topPerformer ms = bottomPerformer ms)
       \<and> (0 < totalFunds ms \<longrightarrow>
            (\<exists>t b. topPerformer ms = Some t \<and> bottomPerformer ms = Some b
               \<and> t \<in> set (funds ms) \<and> b \<in> set (funds ms)
               \<and> rank t = 1 \<and> rank b = totalFunds ms))"
proof -
  obtain mm data det where ms: "ms = summaryObject (month ms) data det"
    using result_elements [OF assms] by blast
  have funds: "funds ms = rankedFunds data"
    by (subst ms) (rule funds_summaryObject)
  have total: "totalFunds ms = length (rankedFunds data)"
    by (subst ms) (rule totalFunds_summaryObject)
  have top: "topPerformer ms = js_index (rankedFunds data) 0"
    by (subst ms) (rule topPerformer_summaryObject)
  have bottom: "bottomPerformer ms = js_index (rankedFunds data) (int (length (rankedFunds data)) - 1)"
    by (subst ms) (rule bottomPerformer_summaryObject)
  have 1: "topPerformer ms = find (\<lambda>f. rank f = 1) (funds ms)"
    by (simp only: top funds performers_rankedFunds)
  have 2: "bottomPerformer ms = find (\<lambda>f. rank f = totalFunds ms) (funds ms)"
    by (simp only: bottom funds total performers_rankedFunds)
  have 3: "topPerformer ms = bottomPerformer ms" if "totalFunds ms = 1"
    using that by (simp add: top bottom total)
  have 4: "\<exists>t b. topPerformer ms = Some t \<and> bottomPerformer ms = Some b
               \<and> t \<in> set (funds ms) \<and> b \<in> set (funds ms)
               \<and> rank t = 1 \<and> rank b = totalFunds ms" if "0 < totalFunds ms"
  proof -
    let ?n = "length (rankedFunds data)"
    have n: "0 < ?n" "?n - 1 < ?n"
      using that by (simp_all add: total)
    have "topPerformer ms = Some (rankedFunds data ! 0)"
      using n by (simp add: top js_index_def)
    moreover have "bottomPerformer ms = Some (rankedFunds data ! (?n - 1))"
      using n by (simp add: bottom js_index_def nat_diff_distrib')
    moreover have "rank (rankedFunds data ! 0) = 1" "rank (rankedFunds data ! (?n - 1)) = ?n"
      using rank_nth_rankedFunds [OF n(1)] rank_nth_rankedFunds [OF n(2)] n by simp_all
    moreover have "rankedFunds data ! 0 \<in> set (rankedFunds data)"
      "rankedFunds data ! (?n - 1) \<in> set (rankedFunds data)"
      using n by (simp_all del: One_nat_def)
    ultimately show ?thesis
      by (simp add: funds total)
  qed
  from 1 2 3 4 show ?thesis by blast
qed

text \<open>
  The ranking example: A with the rate 5 and B with 7.
\<close>

theorem top_and_bottom_performer_witness:
  "runView (map_option name \<circ> topPerformer)
     [dayOf ''01 January 2024'' [fundOf ''A'' 5, fundOf ''B'' 7] 6] = Inr [Some ''B'']
   \<and> runView (map_option rank \<circ> topPerformer)
     [dayOf ''01 January 2024'' [fundOf ''A'' 5, fundOf ''B'' 7] 6] = Inr [Some 1]
   \<and> runView (map_option name \<circ> bottomPerformer)
     [dayOf ''01 January 2024'' [fundOf ''A'' 5, fundOf ''B'' 7] 6] = Inr [Some ''A'']
   \<and> runView (map_option rank \<circ> bottomPerformer)
     [dayOf ''01 January 2024'' [fundOf ''A'' 5, fundOf ''B'' 7] 6] = Inr [Some 2]"
proof -
  let ?ds = "[dayOf ''01 January 2024'' [fundOf ''A'' 5, fundOf ''B'' 7] 6]"
  let ?data = "addStatistics (foldl addFundData new_MonthData [fundOf ''A'' 5, fundOf ''B'' 7])
                 (rates 6)"
  have loop: "forEachDay [] ?ds = Inr [(''JANUARY 2024'', ?data)]"
    by (simp add: bucket_defs key_ex)
  obtain det where det: "getDetailedStats (statistics ?data) = Inr det"
    using getDetailedStats_defined [of "statistics ?data"]
    by (auto simp: addStatistics_def addMetrics_def rates_def addFundData_def Let_def
        new_MonthData_def new_FundMetrics_def)
  let ?ms = "summaryObject ''JANUARY 2024'' ?data det"
  have run: "processMonthlyData ?ds = Inr [?ms]"
    by (rule single_bucket [OF loop det])
  have mem: "?ms \<in> set [?ms]"
    by simp
  have names: "map name (funds ?ms) = [''B'', ''A'']"
    by (simp add: funds_defs)
  have total: "totalFunds ?ms = 2"
    using arg_cong [OF names, of length] by (simp add: summaryObject_def Let_def)
  have pos: "0 < totalFunds ?ms"
    using total by simp
  from top_and_bottom_performer [OF run mem] pos
  obtain t b where tb: "topPerformer ?ms = Some t" "bottomPerformer ?ms = Some b"
    "rank t = 1" "rank b = totalFunds ?ms"
    by blast
  have "map_option name (topPerformer ?ms) = Some ''B''"
    "map_option name (bottomPerformer ?ms) = Some ''A''"
    by (simp_all add: funds_defs)
  moreover have "map_option rank (topPerformer ?ms) = Some 1"
    "map_option rank (bottomPerformer ?ms) = Some 2"
    using tb total by simp_all
  ultimately show ?thesis
    by (simp add: runView_Inr [OF run])
qed

text \<open>
  C9. In every element of the result the average statistics of the portfolio are the
  averages of the day triples of the month, one triple for each record of that month
  whose \<open>try\<close> block runs to its end (\<open>dayStats\<close>), and \<open>dataPoints\<close> is their number:
  a mean of the days' means, in which the samples of the funds play no part.
\<close>

theorem portfolio_average_of_day_averages:
  assumes "processMonthlyData dailyData = Inr out" and "ms \<in> set out"
  shows "statistics_average ms =
           \<lparr>nominalRate = average (map nominalRate (dayStats (month ms) dailyData)),
            afterTaxReturn = average (map afterTaxReturn (dayStats (month ms) dailyData)),
            realReturn = average (map realReturn (dayStats (month ms) dailyData)),
            dataPoints = length (dayStats (month ms) dailyData)\<rparr>"
proof -
  obtain mm data det where mm: "forEachDay [] dailyData = Inr mm" "(month ms, data) \<in> set mm"
    and ms: "ms = summaryObject (month ms) data det"
    using result_elements [OF assms] by blast
  have "statistics data = foldl addStat new_FundMetrics (dayStats (month ms) dailyData)"
    by (rule bucket_of_result(2) [OF mm])
  then have "getAverages (statistics data) =
           \<lparr>nominalRate = average (map nominalRate (dayStats (month ms) dailyData)),
            afterTaxReturn = average (map afterTaxReturn (dayStats (month ms) dailyData)),
            realReturn = average (map realReturn (dayStats (month ms) dailyData)),
            dataPoints = length (dayStats (month ms) dailyData)\<rparr>"
    by (simp add: getAverages_def foldl_addStat new_FundMetrics_def)
  moreover have "statistics_average ms = getAverages (statistics data)"
    by (subst ms) (rule statistics_average_summaryObject)
  ultimately show ?thesis by simp
qed

lemma contribution_dayOf: "contribution (dayOf dt fs r) = Some (monthYearOf dt, rates r)"
  by (auto simp: contribution_eq dayOf_def dayThrows_def)

text \<open>
  Two days of January whose triples are 10 and 20 while the samples of the funds are
  4, 6 and 4: the portfolio average is 15, the average of the samples is 4.67.
\<close>

theorem portfolio_average_of_day_averages_witness:
  "runView (nominalRate \<circ> statistics_average)
     [dayOf ''01 January 2024'' [fundOf ''X'' 4, fundOf ''Y'' 6] 10,
      dayOf ''02 January 2024'' [fundOf ''X'' 4] 20] = Inr [Num 15]
   \<and> average [Some 10, Some 20] = Num 15
   \<and> average [Some 4, Some 6, Some 4] = Num (467 / 100)"
proof -
  let ?ds = "[dayOf ''01 January 2024'' [fundOf ''X'' 4, fundOf ''Y'' 6] 10,
      dayOf ''02 January 2024'' [fundOf ''X'' 4] 20]"
  let ?data = "addStatistics
          (addFundData
            (addStatistics (foldl addFundData new_MonthData [fundOf ''X'' 4, fundOf ''Y'' 6])
               (rates 10))
            (fundOf ''X'' 4))
          (rates 20)"
  have k2: "monthYearOf ''02 January 2024'' = ''JANUARY 2024''"
    by (simp add: key_defs)
  have loop: "forEachDay [] ?ds = Inr [(''JANUARY 2024'', ?data)]"
    by (simp add: bucket_defs key_ex k2)
  obtain det where det: "getDetailedStats (statistics ?data) = Inr det"
    using getDetailedStats_defined [of "statistics ?data"]
    by (auto simp: addStatistics_def addMetrics_def rates_def addFundData_def Let_def
        new_MonthData_def new_FundMetrics_def)
  let ?ms = "summaryObject ''JANUARY 2024'' ?data det"
  have run: "processMonthlyData ?ds = Inr [?ms]"
    by (rule single_bucket [OF loop det])
  have mem: "?ms \<in> set [?ms]"
    by simp
  have month: "month ?ms = ''JANUARY 2024''"
    by (rule month_summaryObject)
  have stats: "dayStats ''JANUARY 2024'' ?ds = [rates 10, rates 20]"
    by (simp add: dayStats_Cons dayStats_Nil contribution_dayOf key_ex k2)
  have avg: "average [Some 10, Some 20] = Num 15"
    "average [Some 4, Some 6, Some 4] = Num (467 / 100)"
    by (simp_all add: average_def numberOf_def round2_def)
  have "nominalRate (statistics_average ?ms)
      = average (map nominalRate (dayStats (month ?ms) ?ds))"
    by (subst portfolio_average_of_day_averages [OF run mem]) simp
  also have "\<dots> = average [Some 10, Some 20]"
    unfolding month stats by (simp add: rates_def)
  finally have "nominalRate (statistics_average ?ms) = Num 15"
    by (simp only: avg)
  then show ?thesis
    using avg by (simp add: runView_Inr [OF run])
qed

text \<open>
  C10, as amended. Take a month that has a record whose \<open>try\<close> block ran to its end
  and to which no fund was added. Every result that \<open>processMonthlyData\<close> returns has
  an element for this month, and that element has no funds, \<open>totalFunds\<close> 0, and the
  empty object as top and as bottom performer. And \<open>processMonthlyData\<close> does return
  when the \<open>catch\<close> block of no record throws and every day triple that is appended
  holds three numbers.
\<close>

theorem empty_funds_summary:
  assumes "d \<in> set dailyData" and "contribution d = Some (k, st)"
    and "monthFunds k dailyData = []"
  shows "(\<forall>out. processMonthlyData dailyData = Inr out \<longrightarrow>
            (\<exists>ms\<in>set out. month ms = k)
            \<and> (\<forall>ms\<in>set out. month ms = k \<longrightarrow>
                  funds ms = [] \<and> totalFunds ms = 0
                  \<and> topPerformer ms = None \<and> bottomPerformer ms = None))
       \<and> ((\<forall>r\<in>set dailyData. catchBlock r = None)
            \<and> (\<forall>r\<in>set dailyData. \<forall>k' st'. contribution r = Some (k', st') \<longrightarrow> numeric st')
          \<longrightarrow> (\<exists>out. processMonthlyData dailyData = Inr out))"
proof -
  have key: "dayKey d = Some k"
    using assms(2)
    by (auto simp: contribution_eq dayKey_def dayDate_def
        split: option.splits date_value.splits if_splits)
  have A: "(\<exists>ms\<in>set out. month ms = k)
            \<and> (\<forall>ms\<in>set out. month ms = k \<longrightarrow>
                  funds ms = [] \<and> totalFunds ms = 0
                  \<and> topPerformer ms = None \<and> bottomPerformer ms = None)"
    if run: "processMonthlyData dailyData = Inr out" for out
  proof -
    have ex: "\<exists>ms\<in>set out. month ms = k"
      by (rule result_has_bucket [OF run assms(1) key])
    have "funds ms = [] \<and> totalFunds ms = 0
        \<and> topPerformer ms = None \<and> bottomPerformer ms = None"
      if h: "ms \<in> set out" "month ms = k" for ms
    proof -
      obtain mm' data det where *: "forEachDay [] dailyData = Inr mm'"
          "(month ms, data) \<in> set mm'"
        and ms: "ms = summaryObject (month ms) data det"
        using result_elements [OF run h(1)] by blast
      have "fundsData data = fundsTable (monthFunds k dailyData)"
        using bucket_of_result(1) [OF *] h(2) by simp
      then have "fundsData data = []"
        by (simp add: assms(3) fundsTable_def firstAppearance_def)
      then have "rankedFunds data = []"
        using length_rankedFunds [of data] by simp
      then have "funds (summaryObject (month ms) data det) = []
          \<and> totalFunds (summaryObject (month ms) data det) = 0
          \<and> topPerformer (summaryObject (month ms) data det) = None
          \<and> bottomPerformer (summaryObject (month ms) data det) = None"
        by (simp add: summaryObject_def Let_def js_index_def)
      then show ?thesis
        using ms by simp
    qed
    then show ?thesis
      using ex by blast
  qed
  have B: "\<exists>out. processMonthlyData dailyData = Inr out"
    if "(\<forall>r\<in>set dailyData. catchBlock r = None)
        \<and> (\<forall>r\<in>set dailyData. \<forall>k' st'. contribution r = Some (k', st') \<longrightarrow> numeric st')"
  proof -
    from that have 1: "\<forall>r\<in>set dailyData. catchBlock r = None"
      and 2: "\<forall>r\<in>set dailyData. \<forall>k' st'. contribution r = Some (k', st') \<longrightarrow> numeric st'"
      by blast+
    show ?thesis
      by (rule processMonthlyData_defined [OF 1 2])
  qed
  have A': "\<forall>out. processMonthlyData dailyData = Inr out \<longrightarrow>
            (\<exists>ms\<in>set out. month ms = k)
            \<and> (\<forall>ms\<in>set out. month ms = k \<longrightarrow>
                  funds ms = [] \<and> totalFunds ms = 0
                  \<and> topPerformer ms = None \<and> bottomPerformer ms = None)"
    by (intro allI impI) (rule A)
  have B': "(\<forall>r\<in>set dailyData. catchBlock r = None)
            \<and> (\<forall>r\<in>set dailyData. \<forall>k' st'. contribution r = Some (k', st') \<longrightarrow> numeric st')
          \<longrightarrow> (\<exists>out. processMonthlyData dailyData = Inr out)"
    by (intro impI) (rule B)
  from A' B' show ?thesis
    by (rule conjI)
qed

text \<open>
  One record of January with an empty array of funds.
\<close>

theorem empty_funds_summary_witness:
  "runView month [dayOf ''01 January 2024'' [] 6] = Inr [''JANUARY 2024'']
   \<and> runView funds [dayOf ''01 January 2024'' [] 6] = Inr [[]]
   \<and> runView totalFunds [dayOf ''01 January 2024'' [] 6] = Inr [0]
   \<and> runView topPerformer [dayOf ''01 January 2024'' [] 6] = Inr [None]
   \<and> runView bottomPerformer [dayOf ''01 January 2024'' [] 6] = Inr [None]"
proof -
  let ?d = "dayOf ''01 January 2024'' [] 6"
  have 1: "\<forall>r\<in>set [?d]. catchBlock r = None"
    by (simp add: dayOf_def catchBlock_def)
  have 2: "\<forall>r\<in>set [?d]. \<forall>k' st'. contribution r = Some (k', st') \<longrightarrow> numeric st'"
    by (simp add: contribution_dayOf numeric_def rates_def)
  have 3: "?d \<in> set [?d]"
    by simp
  have 4: "contribution ?d = Some (''JANUARY 2024'', rates 6)"
    by (simp add: contribution_dayOf key_ex)
  have 5: "monthFunds ''JANUARY 2024'' [?d] = []"
    by (simp add: monthFunds_Cons monthFunds_Nil addedFunds_def dayOf_def List.map_filter_simps)
  note inst = empty_funds_summary [OF 3 4 5]
  from inst 1 2 obtain out where out: "processMonthlyData [?d] = Inr out"
    by blast
  from inst out
  have all: "\<forall>ms\<in>set out. month ms = ''JANUARY 2024'' \<longrightarrow>
                 funds ms = [] \<and> totalFunds ms = 0
                 \<and> topPerformer ms = None \<and> bottomPerformer ms = None"
    by blast
  let ?data = "addStatistics new_MonthData (rates 6)"
  have loop: "forEachDay [] [?d] = Inr [(''JANUARY 2024'', ?data)]"
    by (simp add: bucket_defs key_ex)
  obtain det where det: "getDetailedStats (statistics ?data) = Inr det"
    using getDetailedStats_defined [of "statistics ?data"]
    by (auto simp: addStatistics_def addMetrics_def rates_def new_MonthData_def
        new_FundMetrics_def)
  let ?ms = "summaryObject ''JANUARY 2024'' ?data det"
  have run: "processMonthlyData [?d] = Inr [?ms]"
    by (rule single_bucket [OF loop det])
  have month: "month ?ms = ''JANUARY 2024''"
    by (rule month_summaryObject)
  have "?ms \<in> set out"
    using out run by auto
  then have "funds ?ms = [] \<and> totalFunds ?ms = 0
      \<and> topPerformer ?ms = None \<and> bottomPerformer ?ms = None"
    using all month by blast
  then have "funds ?ms = []" "totalFunds ?ms = 0"
    "topPerformer ?ms = None" "bottomPerformer ?ms = None"
    by blast+
  then show ?thesis
    using month by (simp add: runView_Inr [OF run])
qed

text \<open>
  The claim as stated fails for a bucket without funds whose record has a day triple
  that lacks a rate: the \<open>try\<close> block runs to its end, the rate is appended as
  \<open>undefined\<close>, and \<open>median\<close>, called outside the \<open>try\<close> block when the bucket is
  summarised, throws at \<open>toFixed\<close>.
\<close>

theorem empty_funds_run_fails:
  "contribution
     \<lparr>metadata = Some \<lparr>date = DateString ''01 January 2024'',
                       day_statistics = Some \<lparr>nominalRate = None, afterTaxReturn = Some 6,
                                               realReturn = Some 6\<rparr>\<rparr>,
      day_funds = Some []\<rparr>
   = Some (''JANUARY 2024'',
           \<lparr>nominalRate = None, afterTaxReturn = Some 6, realReturn = Some 6\<rparr>)
   \<and> monthFunds ''JANUARY 2024''
       [\<lparr>metadata = Some \<lparr>date = DateString ''01 January 2024'',
                         day_statistics = Some \<lparr>nominalRate = None, afterTaxReturn = Some 6,
                                                 realReturn = Some 6\<rparr>\<rparr>,
        day_funds = Some []\<rparr>] = []
   \<and> processMonthlyData
       [\<lparr>metadata = Some \<lparr>date = DateString ''01 January 2024'',
                         day_statistics = Some \<lparr>nominalRate = None, afterTaxReturn = Some 6,
                                                 realReturn = Some 6\<rparr>\<rparr>,
        day_funds = Some []\<rparr>] = Inl TypeError"
proof -
  let ?st = "\<lparr>nominalRate = None, afterTaxReturn = Some 6, realReturn = Some (6::real)\<rparr>"
  let ?d = "\<lparr>metadata = Some \<lparr>date = DateString ''01 January 2024'',
                                day_statistics = Some ?st\<rparr>,
             day_funds = Some []\<rparr>"
  have 1: "contribution ?d = Some (''JANUARY 2024'', ?st)"
    by (simp add: contribution_eq dayThrows_def key_ex)
  have key: "dayKey ?d = Some ''JANUARY 2024''"
    by (simp add: dayKey_def dayDate_def key_ex)
  have 2: "monthFunds ''JANUARY 2024'' [?d] = []"
    by (simp add: monthFunds_Cons monthFunds_Nil key addedFunds_def List.map_filter_simps)
  have loop: "forEachDay [] [?d] = Inr [(''JANUARY 2024'', addStatistics new_MonthData ?st)]"
    by (simp add: bucket_defs key_ex)
  have "median [None] = Inl TypeError"
    by (simp add: median_def js_sort_undefined_def List.map_filter_simps js_sort_def)
  then have det: "getDetailedStats (statistics (addStatistics new_MonthData ?st)) = Inl TypeError"
    by (simp add: getDetailedStats_def detail_def addStatistics_def addMetrics_def
        new_MonthData_def new_FundMetrics_def)
  have 3: "processMonthlyData [?d] = Inl TypeError"
    unfolding processMonthlyData_def loop by (simp add: monthSummary_def det)
  show ?thesis
    using 1 2 3 by (intro conjI)
qed

lemma processDay_not_string:
  assumes "metadata d = Some md" and "date md = NotString True"
  shows "processDay m d = Inr m"
  using assms by (simp add: processDay_eq catchBlock_def tryBlock_no_date dayDate_def)

lemma forEachDay_append:
  "forEachDay m (xs @ ys) =
     (case forEachDay m xs of Inl e \<Rightarrow> Inl e | Inr m1 \<Rightarrow> forEachDay m1 ys)"
  by (induction xs arbitrary: m) (simp_all split: sum.splits)

text \<open>
  C1, as amended. A record whose \<open>metadata.date\<close> can be read and is not a string, but
  a value that a template literal can print (absent, \<open>null\<close>, a number), makes the \<open>try\<close>
  block throw before anything is written: the failure is caught, the map of buckets is
  left as it was, and the loop goes on, so the result is that of the input without
  this record.
\<close>

theorem record_without_date_skipped:
  assumes "metadata d = Some md" and "date md = NotString True"
  shows "(\<forall>m. processDay m d = Inr m)
       \<and> processMonthlyData (xs @ d # ys) = processMonthlyData (xs @ ys)"
proof -
  have skip: "processDay m d = Inr m" for m
    by (rule processDay_not_string [OF assms])
  have "forEachDay m (xs @ d # ys) = forEachDay m (xs @ ys)" for m
    by (simp add: forEachDay_append skip split: sum.splits)
  then have same: "processMonthlyData (xs @ d # ys) = processMonthlyData (xs @ ys)"
    by (simp add: processMonthlyData_def)
  show ?thesis
    using skip same by blast
qed

text \<open>
  A record without a date between a record of January and one of February.
\<close>

theorem record_without_date_skipped_witness:
  "processMonthlyData
     [dayOf ''01 January 2024'' [fundOf ''X'' 4] 6,
      \<lparr>metadata = Some \<lparr>date = NotString True, day_statistics = Some (rates 9)\<rparr>,
       day_funds = Some [Some (fundOf ''Y'' 9)]\<rparr>,
      dayOf ''02 February 2024'' [fundOf ''X'' 5] 7]
   = processMonthlyData
     [dayOf ''01 January 2024'' [fundOf ''X'' 4] 6,
      dayOf ''02 February 2024'' [fundOf ''X'' 5] 7]
   \<and> runView month
       [dayOf ''01 January 2024'' [fundOf ''X'' 4] 6,
        \<lparr>metadata = Some \<lparr>date = NotString True, day_statistics = Some (rates 9)\<rparr>,
         day_funds = Some [Some (fundOf ''Y'' 9)]\<rparr>,
        dayOf ''02 February 2024'' [fundOf ''X'' 5] 7]
     = Inr [''JANUARY 2024'', ''FEBRUARY 2024'']
   \<and> runView (map name \<circ> funds)
       [dayOf ''01 January 2024'' [fundOf ''X'' 4] 6,
        \<lparr>metadata = Some \<lparr>date = NotString True, day_statistics = Some (rates 9)\<rparr>,
         day_funds = Some [Some (fundOf ''Y'' 9)]\<rparr>,
        dayOf ''02 February 2024'' [fundOf ''X'' 5] 7]
     = Inr [[''X''], [''X'']]"
proof -
  let ?bad = "\<lparr>metadata = Some \<lparr>date = NotString True, day_statistics = Some (rates 9)\<rparr>,
       day_funds = Some [Some (fundOf ''Y'' 9)]\<rparr>"
  let ?ds = "[dayOf ''01 January 2024'' [fundOf ''X'' 4] 6,
      dayOf ''02 February 2024'' [fundOf ''X'' 5] 7]"
  let ?jan = "addStatistics (addFundData new_MonthData (fundOf ''X'' 4)) (rates 6)"
  let ?feb = "addStatistics (addFundData new_MonthData (fundOf ''X'' 5)) (rates 7)"
  have 1: "metadata ?bad = Some \<lparr>date = NotString True, day_statistics = Some (rates 9)\<rparr>"
    by simp
  have 2: "date \<lparr>date = NotString True, day_statistics = Some (rates 9)\<rparr> = NotString True"
    by simp
  have loop: "forEachDay [] ?ds = Inr [(''JANUARY 2024'', ?jan), (''FEBRUARY 2024'', ?feb)]"
    by (simp add: bucket_defs key_ex key_feb)
  obtain det1 where det1: "getDetailedStats (statistics ?jan) = Inr det1"
    using getDetailedStats_defined [of "statistics ?jan"]
    by (auto simp: addStatistics_def addMetrics_def rates_def addFundData_def Let_def
        new_MonthData_def new_FundMetrics_def)
  obtain det2 where det2: "getDetailedStats (statistics ?feb) = Inr det2"
    using getDetailedStats_defined [of "statistics ?feb"]
    by (auto simp: addStatistics_def addMetrics_def rates_def addFundData_def Let_def
        new_MonthData_def new_FundMetrics_def)
  let ?a = "summaryObject ''JANUARY 2024'' ?jan det1"
  let ?b = "summaryObject ''FEBRUARY 2024'' ?feb det2"
  have run: "processMonthlyData ?ds = Inr [?a, ?b]"
    unfolding two_buckets [OF loop det1 det2]
    by (simp add: sort_defs month_summaryObject)
  have a: "month ?a = ''JANUARY 2024''" "map name (funds ?a) = [''X'']"
    by (simp_all add: funds_defs)
  have b: "month ?b = ''FEBRUARY 2024''" "map name (funds ?b) = [''X'']"
    by (simp_all add: funds_defs)
  from record_without_date_skipped [OF 1 2,
      of "[dayOf ''01 January 2024'' [fundOf ''X'' 4] 6]"
         "[dayOf ''02 February 2024'' [fundOf ''X'' 5] 7]"]
  have same: "processMonthlyData
     [dayOf ''01 January 2024'' [fundOf ''X'' 4] 6, ?bad,
      dayOf ''02 February 2024'' [fundOf ''X'' 5] 7] = processMonthlyData ?ds"
    by simp
  have run': "processMonthlyData
     [dayOf ''01 January 2024'' [fundOf ''X'' 4] 6, ?bad,
      dayOf ''02 February 2024'' [fundOf ''X'' 5] 7] = Inr [?a, ?b]"
    by (simp only: same run)
  show ?thesis
    using same a b by (simp add: runView_Inr [OF run'])
qed

text \<open>
  The claim as stated fails for the empty date string. Its \<open>split\<close> gives one token,
  the month and the year are \<open>undefined\<close>, nothing throws, and the record makes the
  bucket \<open>UNDEFINED UNDEFINED\<close>, which holds its fund and its day triple; the empty
  input has no bucket.
\<close>

theorem empty_date_not_skipped:
  "runView month [dayOf [] [fundOf ''X'' 4] 6] = Inr [''UNDEFINED UNDEFINED'']
   \<and> runView (map name \<circ> funds) [dayOf [] [fundOf ''X'' 4] 6] = Inr [[''X'']]
   \<and> runView (dataPoints \<circ> statistics_average) [dayOf [] [fundOf ''X'' 4] 6] = Inr [1]
   \<and> processMonthlyData [] = Inr []"
proof -
  let ?data = "addStatistics (addFundData new_MonthData (fundOf ''X'' 4)) (rates 6)"
  have key: "monthYearOf [] = ''UNDEFINED UNDEFINED''"
    by (simp add: key_defs)
  have loop: "forEachDay [] [dayOf [] [fundOf ''X'' 4] 6] = Inr [(''UNDEFINED UNDEFINED'', ?data)]"
    by (simp add: bucket_defs key)
  obtain det where det: "getDetailedStats (statistics ?data) = Inr det"
    using getDetailedStats_defined [of "statistics ?data"]
    by (auto simp: addStatistics_def addMetrics_def rates_def addFundData_def Let_def
        new_MonthData_def new_FundMetrics_def)
  let ?ms = "summaryObject ''UNDEFINED UNDEFINED'' ?data det"
  have run: "processMonthlyData [dayOf [] [fundOf ''X'' 4] 6] = Inr [?ms]"
    by (rule single_bucket [OF loop det])
  have ms: "month ?ms = ''UNDEFINED UNDEFINED''" "map name (funds ?ms) = [''X'']"
    "dataPoints (statistics_average ?ms) = 1"
    by (simp_all add: funds_defs)
  have "processMonthlyData [] = Inr []"
    by (simp add: processMonthlyData_def js_sort_def)
  then show ?thesis
    using ms by (simp add: runView_Inr [OF run])
qed

text \<open>
  Three other ways in which a failing record is not simply skipped. A record whose
  \<open>metadata.date\<close> cannot be read, or holds a value that cannot be converted to a
  string, makes the \<open>catch\<close> block throw, and the whole run fails. A record that fails
  after its date was read has created its bucket, and the funds before the failure
  stay in it.
\<close>

lemma record_without_metadata_aborts:
  assumes "d \<in> set dailyData" and "metadata d = None"
  shows "processMonthlyData dailyData = Inl TypeError"
proof -
  have "catchBlock d \<noteq> None"
    using assms(2) by (simp add: catchBlock_def)
  then show ?thesis
    using assms(1) by (auto simp: processMonthlyData_def forEachDay_eq)
qed

lemma record_with_unprintable_date_aborts:
  assumes "d \<in> set dailyData" and "metadata d = Some md" and "date md = NotString False"
  shows "processMonthlyData dailyData = Inl TypeError"
proof -
  have "catchBlock d \<noteq> None"
    using assms(2,3) by (simp add: catchBlock_def)
  then show ?thesis
    using assms(1) by (auto simp: processMonthlyData_def forEachDay_eq)
qed

lemma record_without_statistics_keeps_funds:
  "forEachDay []
     [\<lparr>metadata = Some \<lparr>date = DateString ''01 January 2024'', day_statistics = None\<rparr>,
       day_funds = Some [Some (fundOf ''X'' 4)]\<rparr>]
   = Inr [(''JANUARY 2024'', addFundData new_MonthData (fundOf ''X'' 4))]"
  by (simp add: bucket_defs key_ex)





















text \<open>
  Outside the parseable dates the key is not the MonthKey: the code uppercases the year
  token as well, so two dates whose years differ in the case of a letter have
  different MonthKeys and still share a bucket.
\<close>

lemma year_token_is_uppercased:
  "forEachDay [] [dayOf ''01 January 2024a'' [] 1, dayOf ''15 January 2024A'' [] 2]
     = Inr [(''JANUARY 2024A'', addStatistics (addStatistics new_MonthData (rates 1)) (rates 2))]
   \<and> spec_MonthKey ''01 January 2024a'' = (''JANUARY'', ''2024a'')
   \<and> spec_MonthKey ''15 January 2024A'' = (''JANUARY'', ''2024A'')"
proof -
  have k1: "monthYearOf ''01 January 2024a'' = ''JANUARY 2024A''"
    by (simp add: key_defs)
  have k2: "monthYearOf ''15 January 2024A'' = ''JANUARY 2024A''"
    by (simp add: key_defs)
  have run: "forEachDay [] [dayOf ''01 January 2024a'' [] 1, dayOf ''15 January 2024A'' [] 2]
     = Inr [(''JANUARY 2024A'', addStatistics (addStatistics new_MonthData (rates 1)) (rates 2))]"
    by (simp add: bucket_defs k1 k2)
  have s1: "spec_MonthKey ''01 January 2024a'' = (''JANUARY'', ''2024a'')"
    by (simp add: spec_MonthKey_def monthOfDate_def yearOfDate_def key_defs)
  have s2: "spec_MonthKey ''15 January 2024A'' = (''JANUARY'', ''2024A'')"
    by (simp add: spec_MonthKey_def monthOfDate_def yearOfDate_def key_defs)
  show ?thesis
    using run s1 s2 by simp
qed

text \<open>
  C6. The comparator tests the year tokens as strings and, when they differ, returns
  their difference as numbers. For the dates 01 March 2024 and 01 January 02024 the
  tokens differ and denote the same number: the comparator returns 0 in both
  directions without comparing the months, and the stable sort keeps March before
  January of the same year. The result is not in the chronological order that the
  code announces at line 155.
\<close>

theorem leading_zero_year_not_chronological:
  "runView month [dayOf ''01 March 2024'' [] 1, dayOf ''01 January 02024'' [] 2]
     = Inr [''MARCH 2024'', ''JANUARY 02024'']
   \<and> runView (yearToken \<circ> month) [dayOf ''01 March 2024'' [] 1, dayOf ''01 January 02024'' [] 2]
     = Inr [Some ''2024'', Some ''02024'']
   \<and> runView (ToNumber \<circ> yearToken \<circ> month)
       [dayOf ''01 March 2024'' [] 1, dayOf ''01 January 02024'' [] 2]
     = Inr [Num 2024, Num 2024]
   \<and> runView (monthIndex \<circ> monthToken \<circ> month)
       [dayOf ''01 March 2024'' [] 1, dayOf ''01 January 02024'' [] 2]
     = Inr [2, 0]"
proof -
  let ?ds = "[dayOf ''01 March 2024'' [] 1, dayOf ''01 January 02024'' [] 2]"
  let ?mar = "addStatistics new_MonthData (rates 1)"
  let ?jan = "addStatistics new_MonthData (rates 2)"
  have k: "monthYearOf ''01 March 2024'' = ''MARCH 2024''"
    "monthYearOf ''01 January 02024'' = ''JANUARY 02024''"
    by (simp_all add: key_defs)
  have loop: "forEachDay [] ?ds = Inr [(''MARCH 2024'', ?mar), (''JANUARY 02024'', ?jan)]"
    by (simp add: bucket_defs k)
  obtain det1 where det1: "getDetailedStats (statistics ?mar) = Inr det1"
    using getDetailedStats_defined [of "statistics ?mar"]
    by (auto simp: addStatistics_def addMetrics_def rates_def new_MonthData_def
        new_FundMetrics_def)
  obtain det2 where det2: "getDetailedStats (statistics ?jan) = Inr det2"
    using getDetailedStats_defined [of "statistics ?jan"]
    by (auto simp: addStatistics_def addMetrics_def rates_def new_MonthData_def
        new_FundMetrics_def)
  let ?a = "summaryObject ''MARCH 2024'' ?mar det1"
  let ?b = "summaryObject ''JANUARY 02024'' ?jan det2"
  have cmp: "compareMonths ?a ?b = Num 0" "compareMonths ?b ?a = Num 0"
    by (simp_all add: sort_defs month_summaryObject)
  have run: "processMonthlyData ?ds = Inr [?a, ?b]"
    unfolding two_buckets [OF loop det1 det2]
    by (simp add: js_sort_def cmp SortCompare_def)
  show ?thesis
    by (simp add: runView_Inr [OF run] month_summaryObject sort_defs)
qed

text \<open>
  The example of the claim does come out in chronological order: March 2023,
  January 2024 and December 2023 are returned as March 2023, December 2023,
  January 2024.
\<close>

lemma months_example_sorted:
  "runView month
     [dayOf ''01 March 2023'' [] 1, dayOf ''01 January 2024'' [] 2,
      dayOf ''01 December 2023'' [] 3]
   = Inr [''MARCH 2023'', ''DECEMBER 2023'', ''JANUARY 2024'']"
proof -
  let ?ds = "[dayOf ''01 March 2023'' [] 1, dayOf ''01 January 2024'' [] 2,
      dayOf ''01 December 2023'' [] 3]"
  let ?mar = "addStatistics new_MonthData (rates 1)"
  let ?jan = "addStatistics new_MonthData (rates 2)"
  let ?dec = "addStatistics new_MonthData (rates 3)"
  have k: "monthYearOf ''01 March 2023'' = ''MARCH 2023''"
    "monthYearOf ''01 December 2023'' = ''DECEMBER 2023''"
    by (simp_all add: key_defs)
  have loop: "forEachDay [] ?ds
      = Inr [(''MARCH 2023'', ?mar), (''JANUARY 2024'', ?jan), (''DECEMBER 2023'', ?dec)]"
    by (simp add: bucket_defs k key_ex)
  have "\<exists>det. getDetailedStats (statistics (addStatistics new_MonthData (rates r))) = Inr det"
    for r
    using getDetailedStats_defined [of "statistics (addStatistics new_MonthData (rates r))"]
    by (auto simp: addStatistics_def addMetrics_def rates_def new_MonthData_def
        new_FundMetrics_def)
  then obtain det1 det2 det3 where det: "getDetailedStats (statistics ?mar) = Inr det1"
    "getDetailedStats (statistics ?jan) = Inr det2"
    "getDetailedStats (statistics ?dec) = Inr det3"
    by metis
  let ?a = "summaryObject ''MARCH 2023'' ?mar det1"
  let ?b = "summaryObject ''DECEMBER 2023'' ?dec det3"
  let ?c = "summaryObject ''JANUARY 2024'' ?jan det2"
  have run: "processMonthlyData ?ds = Inr [?a, ?b, ?c]"
    unfolding processMonthlyData_def loop
    by (simp add: monthSummary_def det sort_defs month_summaryObject)
  show ?thesis
    by (simp add: runView_Inr [OF run] month_summaryObject)
qed

lemma indexOf_range: "- 1 \<le> indexOf xs v"
  by (induction xs) (auto simp: Let_def)

lemma indexOf_notin: "(indexOf xs v = - 1) = (v \<notin> set xs)"
proof (induction xs)
  case Nil
  then show ?case by simp
next
  case (Cons x xs)
  then show ?case
    using indexOf_range [of xs v] by (auto simp: Let_def)
qed

text \<open>
  C2, as amended. No integrity error exists. A month name that is not in the table
  has the calendar index -1, and the comparator, which raises nothing, then returns a
  negative number against a key with the same year token whose month is in the table.
  On the empty input \<open>processMonthlyData\<close> returns the empty list; the summary step of
  \<open>main\<close> then throws a \<open>TypeError\<close> at \<open>monthlyData[0].metadata\<close>, which \<open>main\<close> itself
  catches, and the program exits with status 1 and writes nothing.
\<close>

theorem no_error_for_month_names:
  "(s \<notin> set months \<longrightarrow> monthIndex (Some s) = - 1)
   \<and> (yearToken (month a) = yearToken (month b) \<and> monthToken (month a) = Some s
        \<and> s \<notin> set months \<and> monthToken (month b) = Some t \<and> t \<in> set months
      \<longrightarrow> js_less (compareMonths a b) (Num 0))
   \<and> processMonthlyData [] = Inr []
   \<and> summaryData [] = Inl TypeError
   \<and> main [] = (None, 1)"
proof -
  have 2: "monthIndex (Some s) = - 1" if "s \<notin> set months"
    using that by (simp add: monthIndex_def indexOf_notin)
  have 3: "js_less (compareMonths a b) (Num 0)"
    if h: "yearToken (month a) = yearToken (month b)" "monthToken (month a) = Some s"
      "s \<notin> set months" "monthToken (month b) = Some t" "t \<in> set months"
  proof -
    have "indexOf months s = - 1"
      using h(3) by (simp add: indexOf_notin)
    moreover have "indexOf months t \<noteq> - 1"
      using h(5) by (simp add: indexOf_notin)
    then have "0 \<le> indexOf months t"
      using indexOf_range [of months t] by linarith
    ultimately show ?thesis
      using h(1,2,4) by (simp add: compareMonths_def Let_def monthIndex_def)
  qed
  have 4: "processMonthlyData [] = Inr []"
    by (simp add: processMonthlyData_def js_sort_def)
  have 5: "summaryData [] = Inl TypeError"
    by (simp add: summaryData_def js_index_def)
  have 6: "main [] = (None, 1)"
    by (simp add: main_def 4 5)
  from 2 3 4 5 6 show ?thesis by blast
qed

text \<open>
  The run of a record of January 2024 and a record dated 01 Foo 2024: Foo 2024 comes
  first.
\<close>

lemma run_with_unrecognized_month:
  "\<exists>det1 det2.
     processMonthlyData [dayOf ''01 January 2024'' [] 1, dayOf ''01 Foo 2024'' [] 2]
     = Inr [summaryObject ''FOO 2024'' (addStatistics new_MonthData (rates 2)) det2,
            summaryObject ''JANUARY 2024'' (addStatistics new_MonthData (rates 1)) det1]"
proof -
  let ?ds = "[dayOf ''01 January 2024'' [] 1, dayOf ''01 Foo 2024'' [] 2]"
  let ?jan = "addStatistics new_MonthData (rates 1)"
  let ?foo = "addStatistics new_MonthData (rates 2)"
  have k: "monthYearOf ''01 Foo 2024'' = ''FOO 2024''"
    by (simp add: key_defs)
  have loop: "forEachDay [] ?ds = Inr [(''JANUARY 2024'', ?jan), (''FOO 2024'', ?foo)]"
    by (simp add: bucket_defs k key_ex)
  obtain det1 where det1: "getDetailedStats (statistics ?jan) = Inr det1"
    using getDetailedStats_defined [of "statistics ?jan"]
    by (auto simp: addStatistics_def addMetrics_def rates_def new_MonthData_def
        new_FundMetrics_def)
  obtain det2 where det2: "getDetailedStats (statistics ?foo) = Inr det2"
    using getDetailedStats_defined [of "statistics ?foo"]
    by (auto simp: addStatistics_def addMetrics_def rates_def new_MonthData_def
        new_FundMetrics_def)
  have "processMonthlyData ?ds
     = Inr [summaryObject ''FOO 2024'' ?foo det2, summaryObject ''JANUARY 2024'' ?jan det1]"
    unfolding two_buckets [OF loop det1 det2]
    by (simp add: sort_defs month_summaryObject)
  then show ?thesis by blast
qed

text \<open>
  The month Foo: its index is -1, and the comparator puts it before January 2024.
\<close>

theorem no_error_for_month_names_witness:
  "monthIndex (Some ''FOO'') = - 1
   \<and> (\<exists>a b. processMonthlyData [dayOf ''01 January 2024'' [] 1, dayOf ''01 Foo 2024'' [] 2]
              = Inr [a, b]
        \<and> month a = ''FOO 2024'' \<and> month b = ''JANUARY 2024''
        \<and> js_less (compareMonths a b) (Num 0))"
proof -
  obtain det1 det2 where run:
    "processMonthlyData [dayOf ''01 January 2024'' [] 1, dayOf ''01 Foo 2024'' [] 2]
     = Inr [summaryObject ''FOO 2024'' (addStatistics new_MonthData (rates 2)) det2,
            summaryObject ''JANUARY 2024'' (addStatistics new_MonthData (rates 1)) det1]"
    using run_with_unrecognized_month by blast
  let ?a = "summaryObject ''FOO 2024'' (addStatistics new_MonthData (rates 2)) det2"
  let ?b = "summaryObject ''JANUARY 2024'' (addStatistics new_MonthData (rates 1)) det1"
  have 2: "''FOO'' \<notin> set months"
    by (simp add: months_def)
  have 3: "yearToken (month ?a) = yearToken (month ?b)
      \<and> monthToken (month ?a) = Some ''FOO''
      \<and> ''FOO'' \<notin> set months
      \<and> monthToken (month ?b) = Some ''JANUARY''
      \<and> ''JANUARY'' \<in> set months"
    by (simp add: month_summaryObject yearToken_def monthToken_def js_index_def months_def)
  from no_error_for_month_names [of "''FOO''" ?a ?b "''JANUARY''"] 2 3
  have "monthIndex (Some ''FOO'') = - 1" and "js_less (compareMonths ?a ?b) (Num 0)"
    by blast+
  moreover have "month ?a = ''FOO 2024''" "month ?b = ''JANUARY 2024''"
    by (simp_all add: month_summaryObject)
  ultimately show ?thesis
    using run by (intro conjI exI [of _ ?a] exI [of _ ?b])
qed

text \<open>
  The claim as stated fails: with a record of the month Foo the run ends normally,
  with exit status 0 and Foo 2024 as the start of the date range; and the ordering step
  raises nothing on the empty input.
\<close>

theorem unrecognized_month_raises_nothing:
  "runView month [dayOf ''01 January 2024'' [] 1, dayOf ''01 Foo 2024'' [] 2]
     = Inr [''FOO 2024'', ''JANUARY 2024'']
   \<and> snd (main [dayOf ''01 January 2024'' [] 1, dayOf ''01 Foo 2024'' [] 2]) = 0
   \<and> map_option (dateRange_start \<circ> fst)
        (fst (main [dayOf ''01 January 2024'' [] 1, dayOf ''01 Foo 2024'' [] 2]))
      = Some ''FOO 2024''
   \<and> processMonthlyData [] = Inr []"
proof -
  obtain det1 det2 where run:
    "processMonthlyData [dayOf ''01 January 2024'' [] 1, dayOf ''01 Foo 2024'' [] 2]
     = Inr [summaryObject ''FOO 2024'' (addStatistics new_MonthData (rates 2)) det2,
            summaryObject ''JANUARY 2024'' (addStatistics new_MonthData (rates 1)) det1]"
    using run_with_unrecognized_month by blast
  have 1: "runView month [dayOf ''01 January 2024'' [] 1, dayOf ''01 Foo 2024'' [] 2]
     = Inr [''FOO 2024'', ''JANUARY 2024'']"
    by (simp add: runView_Inr [OF run] month_summaryObject)
  have 2: "snd (main [dayOf ''01 January 2024'' [] 1, dayOf ''01 Foo 2024'' [] 2]) = 0"
    "map_option (dateRange_start \<circ> fst)
        (fst (main [dayOf ''01 January 2024'' [] 1, dayOf ''01 Foo 2024'' [] 2]))
      = Some ''FOO 2024''"
    unfolding main_def run
    by (simp_all add: summaryData_def js_index_def month_summaryObject)
  have 3: "processMonthlyData [] = Inr []"
    by (simp add: processMonthlyData_def js_sort_def)
  show ?thesis
    using 1 2 3 by (intro conjI)
qed












end
